theory Spec2Isabelle
  imports Complex_Main
begin

section \<open>JavaScript values as the client sees them\<close>

text \<open>
  The client (\<^verbatim>\<open>src/client/forestClient.ts\<close>) receives values of type \<^verbatim>\<open>unknown\<close> and
  inspects them with \<^verbatim>\<open>typeof\<close>, \<^verbatim>\<open>Array.isArray\<close>, truthiness, \<^verbatim>\<open>??\<close> and property reads.
  A number is a finite value or one of the three non-finite doubles; a finite double is
  modelled by its exact rational value (the code never calculates with payload numbers;
  \<^verbatim>\<open>0\<close> and \<^verbatim>\<open>-0\<close> are one value, as they are for \<^verbatim>\<open>===\<close>, truthiness and \<^verbatim>\<open>String\<close>).
  An object is the association list of its own properties; a read takes the first binding.
  A string is modelled by its UTF-8 bytes: the client compares strings, tests them for
  emptiness and passes them on, and leaves everything else to the built-ins below.
\<close>

datatype jnum = Finite rat | NaN | PosInfinity | NegInfinity

datatype jsval =
    JUndefined
  | JNull
  | JBool bool
  | JNum jnum
  | JStr string
  | JArr "jsval list"
  | JObj "(string \<times> jsval) list"

text \<open>
  Built-ins of the language that the client calls and that are not code of the repository:
  \<^verbatim>\<open>String(n)\<close> for a finite number, \<^verbatim>\<open>s.trim()\<close>, \<^verbatim>\<open>s.toLowerCase()\<close> and \<^verbatim>\<open>JSON.parse\<close>
  (\<open>None\<close> when it throws a SyntaxError). Every function that calls one takes them as \<open>h\<close>.
\<close>

record js_host =
  numberToString :: "rat \<Rightarrow> string"
  trim :: "string \<Rightarrow> string"
  toLowerCase :: "string \<Rightarrow> string"
  jsonParse :: "string \<Rightarrow> jsval option"

text \<open>Truthiness (\<^verbatim>\<open>!x\<close>, \<^verbatim>\<open>x && ...\<close>, \<^verbatim>\<open>x || ...\<close>).\<close>

fun truthy :: "jsval \<Rightarrow> bool" where
  "truthy JUndefined = False"
| "truthy JNull = False"
| "truthy (JBool b) = b"
| "truthy (JNum (Finite r)) = (r \<noteq> 0)"
| "truthy (JNum NaN) = False"
| "truthy (JNum PosInfinity) = True"
| "truthy (JNum NegInfinity) = True"
| "truthy (JStr s) = (s \<noteq> [])"
| "truthy (JArr xs) = True"
| "truthy (JObj kvs) = True"

text \<open>\<^verbatim>\<open>typeof x === 'object'\<close>: objects, arrays and \<^verbatim>\<open>null\<close>.\<close>

fun typeofObject :: "jsval \<Rightarrow> bool" where
  "typeofObject JNull = True"
| "typeofObject (JArr xs) = True"
| "typeofObject (JObj kvs) = True"
| "typeofObject v = False"

fun isArray :: "jsval \<Rightarrow> bool" where
  "isArray (JArr xs) = True"
| "isArray v = False"

fun nullish :: "jsval \<Rightarrow> bool" where
  "nullish JUndefined = True"
| "nullish JNull = True"
| "nullish v = False"

text \<open>\<^verbatim>\<open>a ?? b\<close> on values, and on results that are a value or \<^verbatim>\<open>undefined\<close>.\<close>

definition coalesce :: "jsval \<Rightarrow> jsval \<Rightarrow> jsval" where
  "coalesce a b = (if nullish a then b else a)"

fun orElse :: "'a option \<Rightarrow> 'a option \<Rightarrow> 'a option" where
  "orElse (Some a) b = Some a"
| "orElse None b = b"

text \<open>
  A property read \<^verbatim>\<open>x.k\<close> (and \<^verbatim>\<open>x?.k\<close>, which is \<^verbatim>\<open>undefined\<close> on \<^verbatim>\<open>null\<close> and \<^verbatim>\<open>undefined\<close>).
  Every unguarded read of the source is on a value already known not to be nullish, so
  the TypeError of \<^verbatim>\<open>undefined.k\<close> is never reached. An array has its \<^verbatim>\<open>length\<close>; the
  other names the client reads (all fixed, none an index) are not properties of an
  array or of a primitive. A string's \<^verbatim>\<open>length\<close> is never read through this function:
  the one read of \<^verbatim>\<open>length\<close> (\<^verbatim>\<open>extractSection\<close>) is behind \<^verbatim>\<open>typeof input === 'object'\<close>.
\<close>

fun getProp :: "jsval \<Rightarrow> string \<Rightarrow> jsval" where
  "getProp (JObj kvs) k = (case map_of kvs k of Some v \<Rightarrow> v | None \<Rightarrow> JUndefined)"
| "getProp (JArr xs) k =
     (if k = ''length'' then JNum (Finite (of_nat (length xs))) else JUndefined)"
| "getProp v k = JUndefined"

text \<open>\<^verbatim>\<open>k in x\<close> for an object or array \<open>x\<close>.\<close>

fun hasProp :: "string \<Rightarrow> jsval \<Rightarrow> bool" where
  "hasProp k (JObj kvs) = (k \<in> fst ` set kvs)"
| "hasProp k (JArr xs) = (k = ''length'')"
| "hasProp k v = False"

section \<open>Coercions\<close>

definition coerceString :: "js_host \<Rightarrow> jsval \<Rightarrow> string option" where
  "coerceString h v =
     (case v of
        JStr s \<Rightarrow> Some s
      | JNum (Finite r) \<Rightarrow> Some (numberToString h r)
      | _ \<Rightarrow> None)"

definition coerceNumber :: "jsval \<Rightarrow> rat option" where
  "coerceNumber v = (case v of JNum (Finite r) \<Rightarrow> Some r | _ \<Rightarrow> None)"

definition toRecord :: "jsval \<Rightarrow> jsval option" where
  "toRecord v = (if truthy v \<and> typeofObject v then Some v else None)"

text \<open>Truthiness of a \<^verbatim>\<open>string | undefined\<close>.\<close>

fun truthyString :: "string option \<Rightarrow> bool" where
  "truthyString None = False"
| "truthyString (Some s) = (s \<noteq> [])"

section \<open>Edge records and their direction\<close>

datatype direction = DirIn | DirOut | Bidirectional

record ForestEdgeRecord =
  edge_id :: "string option"
  edge_sourceId :: "string option"
  edge_targetId :: "string option"
  edge_direction :: "direction option"
  edge_score :: "rat option"
  edge_status :: "string option"
  edge_label :: "string option"
  edge_description :: "string option"
  edge_toTitle :: "string option"
  edge_fromTitle :: "string option"

definition resolveDirection ::
  "string option \<Rightarrow> string option \<Rightarrow> string \<Rightarrow> direction option" where
  "resolveDirection sourceId targetId nodeId =
     (let normalizedNodeId = nodeId in
      if truthyString sourceId \<and> sourceId = Some normalizedNodeId \<and>
         truthyString targetId \<and> targetId = Some normalizedNodeId
      then Some Bidirectional
      else if truthyString sourceId \<and> sourceId = Some normalizedNodeId then Some DirOut
      else if truthyString targetId \<and> targetId = Some normalizedNodeId then Some DirIn
      else None)"

definition extractTitle :: "js_host \<Rightarrow> jsval \<Rightarrow> string \<Rightarrow> string option" where
  "extractTitle h record key =
     (let nonBlank = (\<lambda>v. case v of JStr s \<Rightarrow> length (trim h s) > 0 | _ \<Rightarrow> False);
          text = (\<lambda>v. case v of JStr s \<Rightarrow> Some s | _ \<Rightarrow> None);
          direct = getProp record (key @ ''Title'')
      in if nonBlank direct then text direct
         else let v = getProp record key in
           if truthy v \<and> typeofObject v then
             (let title = getProp v ''title'' in
              if nonBlank title then text title
              else let name = getProp v ''name'' in
                if nonBlank name then text name else None)
           else None)"

definition normalizeEdgeRecord :: "js_host \<Rightarrow> jsval \<Rightarrow> string \<Rightarrow> ForestEdgeRecord option" where
  "normalizeEdgeRecord h edge nodeId =
     (if \<not> truthy edge \<or> \<not> typeofObject edge then None
      else
        let record = edge;
            sourceId = coerceString h
              (coalesce (getProp record ''sourceId'')
                (coalesce (getProp record ''fromId'')
                  (coalesce (getProp record ''fromNodeId'')
                    (if typeofObject (getProp record ''source'') \<and> truthy (getProp record ''source'')
                     then getProp (getProp record ''source'') ''id'' else JUndefined))));
            targetId = coerceString h
              (coalesce (getProp record ''targetId'')
                (coalesce (getProp record ''toId'')
                  (coalesce (getProp record ''toNodeId'')
                    (if typeofObject (getProp record ''target'') \<and> truthy (getProp record ''target'')
                     then getProp (getProp record ''target'') ''id'' else JUndefined))));
            direction = resolveDirection sourceId targetId nodeId;
            score = orElse (coerceNumber (getProp record ''score''))
                      (orElse (coerceNumber (getProp record ''weight''))
                              (coerceNumber (getProp record ''similarity'')));
            status = coerceString h
              (coalesce (getProp record ''status'')
                (coalesce (getProp record ''state'') (getProp record ''kind'')));
            label = coerceString h
              (coalesce (getProp record ''label'')
                (coalesce (getProp record ''name'') (getProp record ''description'')));
            description = coerceString h (getProp record ''description'');
            toTitle = orElse (extractTitle h record ''target'') (extractTitle h record ''to'');
            fromTitle = orElse (extractTitle h record ''source'') (extractTitle h record ''from'')
        in Some \<lparr> edge_id = coerceString h (getProp record ''id''),
                  edge_sourceId = sourceId,
                  edge_targetId = targetId,
                  edge_direction = direction,
                  edge_score = score,
                  edge_status = status,
                  edge_label = label,
                  edge_description = description,
                  edge_toTitle = toTitle,
                  edge_fromTitle = fromTitle \<rparr>)"

section \<open>Edge collections and node detail\<close>

record EdgeCollection =
  coll_items :: "ForestEdgeRecord list"
  coll_total :: "rat option"

text \<open>\<^verbatim>\<open>xs.map((edge) => this.normalizeEdgeRecord(edge, nodeId)).filter((edge) => edge !== null)\<close>\<close>

definition normalizeEdges :: "js_host \<Rightarrow> jsval list \<Rightarrow> string \<Rightarrow> ForestEdgeRecord list" where
  "normalizeEdges h xs nodeId = List.map_filter (\<lambda>edge. normalizeEdgeRecord h edge nodeId) xs"

fun elements :: "jsval \<Rightarrow> jsval list" where
  "elements (JArr xs) = xs"
| "elements v = []"

definition numberOfLength :: "'a list \<Rightarrow> rat" where
  "numberOfLength xs = of_nat (length xs)"

definition normalizeEdgeCollection :: "js_host \<Rightarrow> jsval \<Rightarrow> string \<Rightarrow> EdgeCollection" where
  "normalizeEdgeCollection h input nodeId =
     (if \<not> truthy input then \<lparr> coll_items = [], coll_total = None \<rparr>
      else if isArray input then
        (let items = normalizeEdges h (elements input) nodeId
         in \<lparr> coll_items = items, coll_total = Some (numberOfLength items) \<rparr>)
      else if typeofObject input then
        (let obj = input in
         if isArray (getProp obj ''items'') then
           (let items = normalizeEdges h (elements (getProp obj ''items'')) nodeId;
                total = orElse (coerceNumber (getProp obj ''total'')) (Some (numberOfLength items))
            in \<lparr> coll_items = items, coll_total = total \<rparr>)
         else if isArray (getProp obj ''edges'') then
           (let items = normalizeEdges h (elements (getProp obj ''edges'')) nodeId
            in \<lparr> coll_items = items, coll_total = Some (numberOfLength items) \<rparr>)
         else \<lparr> coll_items = [], coll_total = None \<rparr>)
      else \<lparr> coll_items = [], coll_total = None \<rparr>)"

record ForestNodeDetail =
  detail_id :: string
  detail_title :: "string option"
  detail_body :: "string option"
  detail_tags :: "string list"
  detail_bodyLength :: "rat option"
  detail_edges :: "ForestEdgeRecord list"
  detail_edgesTotal :: rat
  detail_suggestions :: "ForestEdgeRecord list"
  detail_suggestionsTotal :: rat

text \<open>A \<^verbatim>\<open>number | undefined\<close> as a value again, where the source puts one into a \<^verbatim>\<open>??\<close> chain of values.\<close>

fun ofNumber :: "rat option \<Rightarrow> jsval" where
  "ofNumber None = JUndefined"
| "ofNumber (Some r) = JNum (Finite r)"

fun stringsOf :: "jsval list \<Rightarrow> string list" where
  "stringsOf [] = []"
| "stringsOf (JStr s # vs) = s # stringsOf vs"
| "stringsOf (v # vs) = stringsOf vs"

text \<open>
  The four \<^verbatim>\<open>let\<close> variables the source reassigns (\<^verbatim>\<open>edges\<close>, \<^verbatim>\<open>edgesTotal\<close>, \<^verbatim>\<open>suggestions\<close>,
  \<^verbatim>\<open>suggestionsTotal\<close>) are threaded as a tuple through the two fallback blocks.
\<close>

definition nestedFallback ::
  "js_host \<Rightarrow> jsval \<Rightarrow> string \<Rightarrow>
   ForestEdgeRecord list \<times> rat option \<times> ForestEdgeRecord list \<times> rat option \<Rightarrow>
   ForestEdgeRecord list \<times> rat option \<times> ForestEdgeRecord list \<times> rat option" where
  "nestedFallback h source ident vars =
     (case vars of (edges, edgesTotal, suggestions, suggestionsTotal) \<Rightarrow>
        if length edges = 0 \<and> truthy (getProp source ''edges'') \<and> typeofObject (getProp source ''edges'')
        then
          (let accepted = getProp (getProp source ''edges'') ''accepted'';
               acceptedCollection = normalizeEdgeCollection h accepted ident;
               edges' = coll_items acceptedCollection;
               edgesTotal' = orElse edgesTotal (coll_total acceptedCollection)
           in if length suggestions = 0 then
                (let suggested = getProp (getProp source ''edges'') ''suggested'';
                     suggestedCollection = normalizeEdgeCollection h suggested ident
                 in (edges', edgesTotal', coll_items suggestedCollection,
                     orElse suggestionsTotal (coll_total suggestedCollection)))
              else (edges', edgesTotal', suggestions, suggestionsTotal))
        else vars)"

definition legacyFallback ::
  "js_host \<Rightarrow> jsval \<Rightarrow> string \<Rightarrow>
   ForestEdgeRecord list \<times> rat option \<times> ForestEdgeRecord list \<times> rat option \<Rightarrow>
   ForestEdgeRecord list \<times> rat option \<times> ForestEdgeRecord list \<times> rat option" where
  "legacyFallback h source ident vars =
     (case vars of (edges, edgesTotal, suggestions, suggestionsTotal) \<Rightarrow>
        if length suggestions = 0 then
          (let fallback = normalizeEdgeCollection h (getProp source ''suggestedEdges'') ident
           in if length (coll_items fallback) > 0
              then (edges, edgesTotal, coll_items fallback,
                    orElse suggestionsTotal (coll_total fallback))
              else vars)
        else vars)"

definition normalizeNodeDetail :: "js_host \<Rightarrow> jsval \<Rightarrow> string \<Rightarrow> ForestNodeDetail" where
  "normalizeNodeDetail h payload nodeId =
     (let source = coalesce payload (JObj []);
          ident = (case coerceString h (getProp source ''id'') of
                     Some s \<Rightarrow> if s \<noteq> [] then s else nodeId
                   | None \<Rightarrow> nodeId);
          title = coerceString h (getProp source ''title'');
          body = coerceString h (getProp source ''body'');
          bodyLength = coerceNumber (coalesce (getProp source ''bodyLength'') (getProp source ''body_size''));
          tagsRaw = (if isArray (getProp source ''tags'')
                     then stringsOf (elements (getProp source ''tags'')) else []);
          edgesCollection = normalizeEdgeCollection h (getProp source ''edges'') ident;
          edges0 = coll_items edgesCollection;
          edgesTotal0 = coerceNumber
            (coalesce (getProp source ''edgesTotal'')
              (coalesce (getProp (getProp source ''edges'') ''total'')
                (ofNumber (coll_total edgesCollection))));
          suggestionsCollection = normalizeEdgeCollection h
            (coalesce (getProp source ''suggestions'') (getProp (getProp source ''edges'') ''suggested''))
            ident;
          suggestions0 = coll_items suggestionsCollection;
          suggestionsTotal0 = coerceNumber
            (coalesce (getProp source ''suggestionsTotal'')
              (coalesce (getProp source ''suggestedEdgesTotal'')
                (ofNumber (coll_total suggestionsCollection))))
      in case legacyFallback h source ident
              (nestedFallback h source ident (edges0, edgesTotal0, suggestions0, suggestionsTotal0)) of
           (edges, edgesTotal, suggestions, suggestionsTotal) \<Rightarrow>
             \<lparr> detail_id = ident,
               detail_title = title,
               detail_body = body,
               detail_tags = tagsRaw,
               detail_bodyLength = bodyLength,
               detail_edges = edges,
               detail_edgesTotal = (case edgesTotal of Some n \<Rightarrow> n | None \<Rightarrow> numberOfLength edges),
               detail_suggestions = suggestions,
               detail_suggestionsTotal =
                 (case suggestionsTotal of Some n \<Rightarrow> n | None \<Rightarrow> numberOfLength suggestions) \<rparr>)"

section \<open>Health\<close>

record ForestHealthResponse =
  health_ok :: bool
  health_status :: "string option"
  health_version :: "string option"
  health_databasePath :: "string option"
  health_message :: "string option"
  health_uptimeSeconds :: "rat option"

text \<open>\<^verbatim>\<open>x?.k\<close> on a \<^verbatim>\<open>Record | undefined\<close>.\<close>

fun getPropOpt :: "jsval option \<Rightarrow> string \<Rightarrow> jsval" where
  "getPropOpt None k = JUndefined"
| "getPropOpt (Some v) k = getProp v k"

definition normalizeHealth :: "js_host \<Rightarrow> jsval \<Rightarrow> ForestHealthResponse" where
  "normalizeHealth h source =
     (let payload = (if truthy source \<and> typeofObject source then source else JObj []);
          status = coerceString h (getProp payload ''status'');
          okValue = (case getProp payload ''ok'' of JBool b \<Rightarrow> Some b | _ \<Rightarrow> None);
          ok = (case okValue of
                  Some b \<Rightarrow> b
                | None \<Rightarrow>
                    if truthyString status
                    then (case status of
                            Some st \<Rightarrow> toLowerCase h st = ''healthy'' \<or> toLowerCase h st = ''ok''
                          | None \<Rightarrow> True)
                    else True);
          meta = (if truthy (getProp payload ''meta'') \<and> typeofObject (getProp payload ''meta'')
                  then Some (getProp payload ''meta'') else None);
          database = (if truthy (getProp payload ''database'') \<and> typeofObject (getProp payload ''database'')
                      then Some (getProp payload ''database'') else None);
          version = coerceString h (coalesce (getProp payload ''version'') (getPropOpt meta ''version''));
          databasePath = coerceString h
            (coalesce (getProp payload ''databasePath'') (getPropOpt database ''path''));
          message = coerceString h
            (coalesce (getProp payload ''message'')
              (coalesce (getProp payload ''statusMessage'') (getPropOpt meta ''message'')));
          uptimeSeconds = coerceNumber
            (coalesce (getProp payload ''uptime'')
              (coalesce (getProp payload ''uptimeSeconds'') (getPropOpt meta ''uptimeSeconds'')))
      in \<lparr> health_ok = ok,
           health_status = status,
           health_version = version,
           health_databasePath = databasePath,
           health_message = message,
           health_uptimeSeconds = uptimeSeconds \<rparr>)"

section \<open>Statistics\<close>

record Section =
  section_total :: "rat option"
  section_accepted :: "rat option"
  section_suggested :: "rat option"

definition extractSection :: "jsval \<Rightarrow> Section" where
  "extractSection input =
     (if \<not> truthy input \<or> \<not> typeofObject input
      then \<lparr> section_total = None, section_accepted = None, section_suggested = None \<rparr>
      else
        let record = input in
        \<lparr> section_total = coerceNumber
            (coalesce (getProp record ''total'')
              (coalesce (getProp record ''count'') (getProp record ''length''))),
          section_accepted = coerceNumber (getProp record ''accepted''),
          section_suggested = coerceNumber
            (coalesce (getProp record ''suggested'') (getProp record ''pending'')) \<rparr>)"

record ForestStatsRecentNode =
  recent_id :: string
  recent_title :: "string option"
  recent_createdAt :: "string option"

record ForestStatsTopTag =
  toptag_name :: string
  toptag_count :: "rat option"

record ForestStatsTopSuggestion =
  topsug_ref :: "string option"
  topsug_sourceId :: "string option"
  topsug_targetId :: "string option"
  topsug_score :: "rat option"

record ForestStatsHighDegreeNode =
  hub_id :: string
  hub_title :: "string option"
  hub_edgeCount :: "rat option"

definition recentNodeOf :: "js_host \<Rightarrow> jsval \<Rightarrow> ForestStatsRecentNode option" where
  "recentNodeOf h entry =
     (if \<not> truthy entry \<or> \<not> typeofObject entry then None
      else case coerceString h (getProp entry ''id'') of
             None \<Rightarrow> None
           | Some i \<Rightarrow>
               if i = [] then None
               else Some \<lparr> recent_id = i,
                           recent_title = coerceString h (getProp entry ''title''),
                           recent_createdAt = coerceString h
                             (coalesce (getProp entry ''createdAt'') (getProp entry ''updatedAt'')) \<rparr>)"

definition normalizeRecentNodes :: "js_host \<Rightarrow> jsval \<Rightarrow> ForestStatsRecentNode list" where
  "normalizeRecentNodes h section =
     (case toRecord section of
        None \<Rightarrow> []
      | Some record \<Rightarrow>
          if \<not> isArray (getProp record ''recent'') then []
          else List.map_filter (recentNodeOf h) (elements (getProp record ''recent'')))"

definition topTagOf :: "js_host \<Rightarrow> jsval \<Rightarrow> ForestStatsTopTag option" where
  "topTagOf h entry =
     (if \<not> truthy entry \<or> \<not> typeofObject entry then None
      else case coerceString h (coalesce (getProp entry ''name'') (getProp entry ''tag'')) of
             None \<Rightarrow> None
           | Some n \<Rightarrow>
               if n = [] then None
               else Some \<lparr> toptag_name = n, toptag_count = coerceNumber (getProp entry ''count'') \<rparr>)"

definition normalizeTopTags :: "js_host \<Rightarrow> jsval \<Rightarrow> ForestStatsTopTag list" where
  "normalizeTopTags h section =
     (case toRecord section of
        None \<Rightarrow> []
      | Some record \<Rightarrow>
          let topTags = coalesce (getProp record ''topTags'') (getProp record ''tags'') in
          if \<not> isArray topTags then []
          else List.map_filter (topTagOf h) (elements topTags))"

definition topSuggestionOf :: "js_host \<Rightarrow> jsval \<Rightarrow> ForestStatsTopSuggestion option" where
  "topSuggestionOf h entry =
     (if \<not> truthy entry \<or> \<not> typeofObject entry then None
      else Some
        \<lparr> topsug_ref = coerceString h
            (coalesce (getProp entry ''ref'') (coalesce (getProp entry ''id'') (getProp entry ''code''))),
          topsug_sourceId = coerceString h
            (coalesce (getProp entry ''sourceId'')
              (coalesce (getProp entry ''fromId'') (getProp entry ''sourceNodeId''))),
          topsug_targetId = coerceString h
            (coalesce (getProp entry ''targetId'')
              (coalesce (getProp entry ''toId'') (getProp entry ''targetNodeId''))),
          topsug_score = coerceNumber
            (coalesce (getProp entry ''score'')
              (coalesce (getProp entry ''weight'') (getProp entry ''similarity''))) \<rparr>)"

definition normalizeTopSuggestions :: "js_host \<Rightarrow> jsval \<Rightarrow> ForestStatsTopSuggestion list" where
  "normalizeTopSuggestions h section =
     (case toRecord section of
        None \<Rightarrow> []
      | Some record \<Rightarrow>
          let topSuggestions =
                coalesce (getProp record ''topSuggestions'') (getProp record ''suggestions'') in
          if \<not> isArray topSuggestions then []
          else List.map_filter (topSuggestionOf h) (elements topSuggestions))"

definition highDegreeNodeOf :: "js_host \<Rightarrow> jsval \<Rightarrow> ForestStatsHighDegreeNode option" where
  "highDegreeNodeOf h entry =
     (if \<not> truthy entry \<or> \<not> typeofObject entry then None
      else case coerceString h (getProp entry ''id'') of
             None \<Rightarrow> None
           | Some i \<Rightarrow>
               if i = [] then None
               else Some \<lparr> hub_id = i,
                           hub_title = coerceString h (getProp entry ''title''),
                           hub_edgeCount = coerceNumber
                             (coalesce (getProp entry ''edgeCount'') (getProp entry ''degree'')) \<rparr>)"

definition normalizeHighDegreeNodes :: "js_host \<Rightarrow> jsval \<Rightarrow> ForestStatsHighDegreeNode list" where
  "normalizeHighDegreeNodes h input =
     (if \<not> isArray input then []
      else List.map_filter (highDegreeNodeOf h) (elements input))"

record ForestStatsResponse =
  stats_nodes :: "rat option"
  stats_edges :: "rat option"
  stats_suggestedEdges :: "rat option"
  stats_tags :: "rat option"
  stats_recentCount :: "rat option"
  stats_highScoreSuggestionCount :: "rat option"
  stats_recentNodes :: "ForestStatsRecentNode list"
  stats_topTags :: "ForestStatsTopTag list"
  stats_topSuggestions :: "ForestStatsTopSuggestion list"
  stats_highDegreeNodes :: "ForestStatsHighDegreeNode list"

definition normalizeStats :: "js_host \<Rightarrow> jsval \<Rightarrow> ForestStatsResponse" where
  "normalizeStats h source =
     (let payload = (case toRecord source of Some r \<Rightarrow> r | None \<Rightarrow> JObj []);
          counts = toRecord (getProp payload ''counts'');
          nodesRaw = coalesce (getProp payload ''nodes'') (getPropOpt counts ''nodes'');
          edgesRaw = coalesce (getProp payload ''edges'') (getPropOpt counts ''edges'');
          tagsRaw = coalesce (getProp payload ''tags'') (getPropOpt counts ''tags'');
          suggestionsRaw =
            coalesce (getProp payload ''suggestions'')
              (coalesce (getPropOpt counts ''suggestions'')
                (coalesce (getProp payload ''suggestedEdges'') edgesRaw));
          nodesSection = extractSection nodesRaw;
          edgesSection = extractSection edgesRaw;
          tagsSection = extractSection tagsRaw;
          suggestionsSection = extractSection suggestionsRaw;
          nodes = orElse (coerceNumber (getProp payload ''nodes''))
                    (orElse (coerceNumber (getPropOpt counts ''nodes''))
                      (orElse (section_total nodesSection) (section_accepted nodesSection)));
          edges = orElse (coerceNumber (getProp payload ''edges''))
                    (orElse (coerceNumber (getPropOpt counts ''edges''))
                      (orElse (section_total edgesSection) (section_accepted edgesSection)));
          tags = orElse (coerceNumber (getProp payload ''tags''))
                   (orElse (coerceNumber (getPropOpt counts ''tags''))
                     (section_total tagsSection));
          suggestedEdges = orElse (coerceNumber (getProp payload ''suggestedEdges''))
                             (orElse (coerceNumber (getPropOpt counts ''suggested''))
                               (orElse (section_total suggestionsSection)
                                       (section_suggested edgesSection)));
          nodesRecord = toRecord nodesRaw;
          suggestionsRecord = toRecord suggestionsRaw;
          recentNodes = normalizeRecentNodes h nodesRaw;
          topTags = normalizeTopTags h tagsRaw;
          topSuggestions = normalizeTopSuggestions h suggestionsRaw;
          highDegreeNodes = normalizeHighDegreeNodes h (getProp payload ''highDegreeNodes'');
          recentCount = orElse (coerceNumber (getProp payload ''recentCount''))
                          (orElse (coerceNumber (getPropOpt nodesRecord ''recentCount''))
                            (if length recentNodes > 0 then Some (numberOfLength recentNodes) else None));
          highScoreSuggestionCount =
            orElse (coerceNumber (getProp payload ''highScoreCount''))
              (orElse (coerceNumber (getPropOpt suggestionsRecord ''highScoreCount''))
                (if length topSuggestions > 0 then Some (numberOfLength topSuggestions) else None))
      in \<lparr> stats_nodes = nodes,
           stats_edges = edges,
           stats_suggestedEdges = suggestedEdges,
           stats_tags = tags,
           stats_recentCount = recentCount,
           stats_highScoreSuggestionCount = highScoreSuggestionCount,
           stats_recentNodes = recentNodes,
           stats_topTags = topTags,
           stats_topSuggestions = topSuggestions,
           stats_highDegreeNodes = highDegreeNodes \<rparr>)"

section \<open>Errors, envelopes and requests\<close>

text \<open>
  A thrown error. \<open>Error v\<close> is \<^verbatim>\<open>new Error(v)\<close>: its message is \<open>v\<close> when \<open>v\<close> is a string
  (and \<^verbatim>\<open>String(v)\<close> otherwise). \<open>SyntaxError\<close> is what \<^verbatim>\<open>JSON.parse\<close> and
  \<^verbatim>\<open>response.json()\<close> throw on malformed text; \<open>OtherError n\<close> is any other error, by
  name (a rejected \<^verbatim>\<open>fetch\<close>, a socket error, an exception of the subscriber's handler).
  A thrown value that is not an \<^verbatim>\<open>Error\<close> is modelled by the error the listeners wrap it
  in (\<^verbatim>\<open>error instanceof Error ? error : new Error(String(error))\<close>).
\<close>

datatype js_error = Error jsval | SyntaxError | OtherError string

fun isString :: "jsval \<Rightarrow> bool" where
  "isString (JStr s) = True"
| "isString v = False"

definition unwrap :: "jsval \<Rightarrow> js_error + jsval" where
  "unwrap payload =
     (if truthy payload \<and> typeofObject payload \<and> hasProp ''data'' payload then
        (let envelope = payload in
         if getProp envelope ''success'' = JBool False then
           (let message =
                  (if isString (getProp envelope ''error'') then getProp envelope ''error''
                   else if truthy (getProp envelope ''message'') then getProp envelope ''message''
                   else JStr ''Forest API responded with an error.'')
            in Inl (Error message))
         else Inr (getProp envelope ''data''))
      else Inr payload)"

text \<open>
  What \<^verbatim>\<open>await fetch(url, ...)\<close> comes to: a response, an abort by the timeout's
  \<^verbatim>\<open>AbortController\<close>, or a rejection with some other error. The URL and the query string
  are not modelled: the outcome of the call is an input.
\<close>

record http_response =
  resp_ok :: bool
  resp_status :: nat
  resp_statusText :: string
  resp_text :: string

datatype fetch_outcome = Responded http_response | Aborted | Rejected js_error

definition request :: "js_host \<Rightarrow> rat \<Rightarrow> fetch_outcome \<Rightarrow> js_error + jsval" where
  "request h timeoutMs outcome =
     (case outcome of
        Aborted \<Rightarrow>
          Inl (Error (JStr (''Forest request timed out after '' @ numberToString h timeoutMs @ ''ms'')))
      | Rejected e \<Rightarrow> Inl e
      | Responded response \<Rightarrow>
          if \<not> resp_ok response then
            Inl (Error (JStr (''Forest request failed ('' @
                   numberToString h (of_nat (resp_status response)) @ '' '' @
                   resp_statusText response @ ''): '' @ resp_text response)))
          else if resp_status response = 204 then Inr JUndefined
          else (case jsonParse h (resp_text response) of
                  None \<Rightarrow> Inl SyntaxError
                | Some json \<Rightarrow> unwrap json))"

section \<open>The client: caches and request methods\<close>

record ForestClient =
  timeoutMs :: rat
  contentCache :: "string \<rightharpoonup> jsval"
  detailCache :: "string \<rightharpoonup> ForestNodeDetail"

definition getHealth :: "js_host \<Rightarrow> ForestClient \<Rightarrow> fetch_outcome \<Rightarrow> js_error + ForestHealthResponse" where
  "getHealth h c outcome =
     (case request h (timeoutMs c) outcome of
        Inl e \<Rightarrow> Inl e
      | Inr payload \<Rightarrow> Inr (normalizeHealth h payload))"

definition getStats :: "js_host \<Rightarrow> ForestClient \<Rightarrow> fetch_outcome \<Rightarrow> js_error + ForestStatsResponse" where
  "getStats h c outcome =
     (case request h (timeoutMs c) outcome of
        Inl e \<Rightarrow> Inl e
      | Inr payload \<Rightarrow> Inr (normalizeStats h payload))"

record ForestNodeListResponse =
  list_items :: "jsval list"
  list_total :: jsval
  list_limit :: jsval
  list_offset :: jsval

definition listNodes :: "js_host \<Rightarrow> ForestClient \<Rightarrow> fetch_outcome \<Rightarrow> js_error + ForestNodeListResponse" where
  "listNodes h c outcome =
     (case request h (timeoutMs c) outcome of
        Inl e \<Rightarrow> Inl e
      | Inr payload \<Rightarrow>
          if isArray payload then
            Inr \<lparr> list_items = elements payload, list_total = JUndefined,
                  list_limit = JUndefined, list_offset = JUndefined \<rparr>
          else if truthy payload \<and> isArray (getProp payload ''items'') then
            Inr \<lparr> list_items = elements (getProp payload ''items''),
                  list_total = getProp payload ''total'',
                  list_limit = getProp payload ''limit'',
                  list_offset = getProp payload ''offset'' \<rparr>
          else if truthy payload \<and> isArray (getProp payload ''nodes'') then
            Inr \<lparr> list_items = elements (getProp payload ''nodes''),
                  list_total = getProp payload ''total'',
                  list_limit = getProp payload ''limit'',
                  list_offset = getProp payload ''offset'' \<rparr>
          else Inl (Error (JStr ''Unexpected response shape from /nodes endpoint'')))"

definition listTags :: "js_host \<Rightarrow> ForestClient \<Rightarrow> fetch_outcome \<Rightarrow> js_error + jsval list" where
  "listTags h c outcome =
     (case request h (timeoutMs c) outcome of
        Inl e \<Rightarrow> Inl e
      | Inr payload \<Rightarrow>
          if isArray payload then Inr (elements payload)
          else if truthy payload \<and> isArray (getProp payload ''items'') then
            Inr (elements (getProp payload ''items''))
          else if truthy payload \<and> isArray (getProp payload ''tags'') then
            Inr (elements (getProp payload ''tags''))
          else Inl (Error (JStr ''Unexpected response shape from /tags endpoint'')))"

text \<open>
  \<^verbatim>\<open>Map.prototype.get\<close> returns \<^verbatim>\<open>undefined\<close> for a key the map does not hold. The content
  cache stores the unwrapped payload as it came; the detail cache stores normalized details.
\<close>

definition getCachedNodeContent :: "ForestClient \<Rightarrow> string \<Rightarrow> jsval" where
  "getCachedNodeContent c ident = (case contentCache c ident of None \<Rightarrow> JUndefined | Some v \<Rightarrow> v)"

definition evictNodeContent :: "ForestClient \<Rightarrow> string \<Rightarrow> ForestClient" where
  "evictNodeContent c ident = c\<lparr> contentCache := (contentCache c)(ident := None) \<rparr>"

definition clearNodeContentCache :: "ForestClient \<Rightarrow> ForestClient" where
  "clearNodeContentCache c = c\<lparr> contentCache := Map.empty \<rparr>"

definition getCachedNodeDetail :: "ForestClient \<Rightarrow> string \<Rightarrow> ForestNodeDetail option" where
  "getCachedNodeDetail c ident = detailCache c ident"

definition evictNodeDetail :: "ForestClient \<Rightarrow> string \<Rightarrow> ForestClient" where
  "evictNodeDetail c ident = c\<lparr> detailCache := (detailCache c)(ident := None) \<rparr>"

definition clearNodeDetailCache :: "ForestClient \<Rightarrow> ForestClient" where
  "clearNodeDetailCache c = c\<lparr> detailCache := Map.empty \<rparr>"

text \<open>
  The two fetches return their result and the client with its cache updated. \<open>forceRefresh\<close>
  is the truthiness of \<^verbatim>\<open>options?.forceRefresh\<close>; \<open>outcome\<close> is what the request comes to if
  it is made.
\<close>

definition getNodeContent ::
  "js_host \<Rightarrow> ForestClient \<Rightarrow> string \<Rightarrow> bool \<Rightarrow> fetch_outcome \<Rightarrow> (js_error + jsval) \<times> ForestClient" where
  "getNodeContent h c ident forceRefresh outcome =
     (if ident = [] then (Inl (Error (JStr ''Node id is required'')), c)
      else if \<not> forceRefresh \<and> truthy (getCachedNodeContent c ident)
      then (Inr (getCachedNodeContent c ident), c)
      else case request h (timeoutMs c) outcome of
             Inl e \<Rightarrow> (Inl e, c)
           | Inr content \<Rightarrow> (Inr content, c\<lparr> contentCache := (contentCache c)(ident \<mapsto> content) \<rparr>))"

definition getNodeDetail ::
  "js_host \<Rightarrow> ForestClient \<Rightarrow> string \<Rightarrow> bool \<Rightarrow> fetch_outcome \<Rightarrow>
   (js_error + ForestNodeDetail) \<times> ForestClient" where
  "getNodeDetail h c ident forceRefresh outcome =
     (if ident = [] then (Inl (Error (JStr ''Node id is required'')), c)
      else case (if forceRefresh then None else getCachedNodeDetail c ident) of
             Some cached \<Rightarrow> (Inr cached, c)
           | None \<Rightarrow>
               (case request h (timeoutMs c) outcome of
                  Inl e \<Rightarrow> (Inl e, c)
                | Inr payload \<Rightarrow>
                    (let detail = normalizeNodeDetail h payload ident
                     in (Inr detail, c\<lparr> detailCache := (detailCache c)(ident \<mapsto> detail) \<rparr>))))"

section \<open>The event stream\<close>

text \<open>
  \<^verbatim>\<open>subscribeToEvents\<close> keeps three variables (\<^verbatim>\<open>closed\<close>, \<^verbatim>\<open>socket\<close>, \<^verbatim>\<open>reconnectTimer\<close>) that
  its listeners and the returned unsubscribe function share. The model adds what the
  runtime holds: the ready state of every socket created (a socket is its index in
  creation order), the timers that are set and have neither fired nor been cleared, and
  the trace of the calls the subscription makes, oldest first.
\<close>

datatype ready_state = CONNECTING | OPEN | CLOSING | CLOSED

datatype stream_status = StatusConnecting | StatusConnected | StatusDisconnected

datatype effect =
    StatusChange stream_status
  | OnOpen
  | OnClose
  | OnError js_error
  | Handler jsval
  | NewWebSocket nat
  | SetTimeout nat rat
  | ClearTimeout nat
  | SocketClose nat
  | SocketTerminate nat

text \<open>
  The options that matter to the control flow: the retry delay, which optional callbacks
  are supplied (\<^verbatim>\<open>options.onError?.(...)\<close> is a call only when there is one), and whether a
  call of \<^verbatim>\<open>onOpen\<close>, \<^verbatim>\<open>onClose\<close> or \<^verbatim>\<open>onStatusChange\<close> throws: the connect function and the open and
  close listeners call these outside any \<^verbatim>\<open>try\<close>, so an exception of theirs ends the function
  that called them at that point. The error callback is taken to return normally.
\<close>

record EventStreamOptions =
  retryDelayMs :: "rat option"
  has_onOpen :: bool
  has_onClose :: bool
  has_onError :: bool
  has_onStatusChange :: bool
  onOpen_throws :: bool
  onClose_throws :: bool
  onStatusChange_throws :: "stream_status \<Rightarrow> bool"

record Subscription =
  sub_closed :: bool
  sub_socket :: "nat option"
  sub_reconnectTimer :: "nat option"
  sub_sockets :: "ready_state list"
  sub_timers :: "nat list"
  sub_nextTimer :: nat
  sub_trace :: "effect list"

definition emit :: "bool \<Rightarrow> effect \<Rightarrow> Subscription \<Rightarrow> Subscription" where
  "emit supplied e s = (if supplied then s\<lparr> sub_trace := sub_trace s @ [e] \<rparr> else s)"

definition retryDelay :: "EventStreamOptions \<Rightarrow> rat" where
  "retryDelay options = (case retryDelayMs options of Some d \<Rightarrow> d | None \<Rightarrow> 5000)"

text \<open>
  An optional callback called outside a \<^verbatim>\<open>try\<close>: whether the call threw, and the subscription
  with the call in its trace. A callback that is not supplied is not called and cannot throw.
\<close>

definition call :: "bool \<Rightarrow> bool \<Rightarrow> effect \<Rightarrow> Subscription \<Rightarrow> bool \<times> Subscription" where
  "call supplied throws e s =
     (if supplied then (throws, s\<lparr> sub_trace := sub_trace s @ [e] \<rparr>) else (False, s))"


text \<open>
  \<^verbatim>\<open>connect\<close>, and below it the listeners, return the subscription as the function leaves it,
  whether it returns or an exception of a callback ends it.
\<close>

definition connect :: "EventStreamOptions \<Rightarrow> Subscription \<Rightarrow> Subscription" where
  "connect options s =
     (if sub_closed s then s
      else
        case call (has_onStatusChange options) (onStatusChange_throws options StatusConnecting)
               (StatusChange StatusConnecting) s of
          (True, s1) \<Rightarrow> s1
        | (False, s1) \<Rightarrow>
            (let k = length (sub_sockets s1)
             in s1\<lparr> sub_socket := Some k,
                     sub_sockets := sub_sockets s1 @ [CONNECTING],
                     sub_trace := sub_trace s1 @ [NewWebSocket k] \<rparr>))"

text \<open>Frames carry their text as its UTF-8 bytes, so decoding a buffer is the identity.\<close>

datatype raw_data = Text string | ArrayBuffer string | Fragments "string list" | Buffer string

fun decodeMessage :: "raw_data \<Rightarrow> string" where
  "decodeMessage (Text s) = s"
| "decodeMessage (ArrayBuffer b) = b"
| "decodeMessage (Fragments bs) = concat bs"
| "decodeMessage (Buffer b) = b"

definition openListener :: "EventStreamOptions \<Rightarrow> Subscription \<Rightarrow> Subscription" where
  "openListener options s =
     (case call (has_onStatusChange options) (onStatusChange_throws options StatusConnected)
             (StatusChange StatusConnected) s of
        (True, s1) \<Rightarrow> s1
      | (False, s1) \<Rightarrow> snd (call (has_onOpen options) (onOpen_throws options) OnOpen s1))"

text \<open>
  The body of the message listener's \<^verbatim>\<open>try\<close> block: the exception thrown inside it, if any,
  and the subscription at that point. The subscriber's handler is a function that may
  throw (\<open>Some e\<close>); the call is in the trace either way.
\<close>

definition messageBody ::
  "js_host \<Rightarrow> (jsval \<Rightarrow> js_error option) \<Rightarrow> raw_data \<Rightarrow> Subscription \<Rightarrow>
   js_error option \<times> Subscription" where
  "messageBody h handler data s =
     (let text = decodeMessage data in
      case jsonParse h text of
        None \<Rightarrow> (Some SyntaxError, s)
      | Some parsed \<Rightarrow>
          (case unwrap parsed of
             Inl e \<Rightarrow> (Some e, s)
           | Inr event \<Rightarrow>
               if truthy event \<and> typeofObject event \<and> isString (getProp event ''type'')
               then (handler event, s\<lparr> sub_trace := sub_trace s @ [Handler event] \<rparr>)
               else (None, s)))"

text \<open>
  The message listener, \<^verbatim>\<open>try\<close> and \<^verbatim>\<open>catch\<close>: \<open>Inl\<close> would be an exception that leaves the
  listener, \<open>Inr\<close> is a normal return.
\<close>

definition messageListener ::
  "js_host \<Rightarrow> (jsval \<Rightarrow> js_error option) \<Rightarrow> EventStreamOptions \<Rightarrow> raw_data \<Rightarrow> Subscription \<Rightarrow>
   js_error + Subscription" where
  "messageListener h handler options data s =
     (case messageBody h handler data s of
        (None, s') \<Rightarrow> Inr s'
      | (Some error, s') \<Rightarrow> Inr (emit (has_onError options) (OnError error) s'))"

definition errorListener :: "EventStreamOptions \<Rightarrow> js_error \<Rightarrow> Subscription \<Rightarrow> Subscription" where
  "errorListener options error s = emit (has_onError options) (OnError error) s"

definition closeListener :: "EventStreamOptions \<Rightarrow> Subscription \<Rightarrow> Subscription" where
  "closeListener options s =
     (case call (has_onClose options) (onClose_throws options) OnClose s of
        (True, s1) \<Rightarrow> s1
      | (False, s1) \<Rightarrow>
          (case call (has_onStatusChange options) (onStatusChange_throws options StatusDisconnected)
                  (StatusChange StatusDisconnected) s1 of
             (True, s2) \<Rightarrow> s2
           | (False, s2) \<Rightarrow>
               if \<not> sub_closed s2 then
                 (let t = sub_nextTimer s2
                  in s2\<lparr> sub_reconnectTimer := Some t,
                          sub_timers := sub_timers s2 @ [t],
                          sub_nextTimer := Suc t,
                          sub_trace := sub_trace s2 @ [SetTimeout t (retryDelay options)] \<rparr>)
               else s2))"

text \<open>\<^verbatim>\<open>subscribeToEvents\<close> up to its \<^verbatim>\<open>return\<close>: the variables are initialised and \<^verbatim>\<open>connect()\<close> runs once.\<close>

definition subscribeToEvents :: "EventStreamOptions \<Rightarrow> Subscription" where
  "subscribeToEvents options =
     connect options
       \<lparr> sub_closed = False, sub_socket = None, sub_reconnectTimer = None,
         sub_sockets = [], sub_timers = [], sub_nextTimer = 0, sub_trace = [] \<rparr>"

text \<open>
  The function \<^verbatim>\<open>subscribeToEvents\<close> returns. \<^verbatim>\<open>socket\<close> holds a socket from the first \<^verbatim>\<open>connect()\<close>
  on, and it is always one that was created (\<open>streamInvariant\<close> below), so its ready state
  is read inside the list. A \<^verbatim>\<open>Timeout\<close> object is truthy, so \<^verbatim>\<open>if (reconnectTimer)\<close> asks whether
  a timer was ever set; clearing one that has fired changes nothing.
\<close>

definition unsubscribe :: "Subscription \<Rightarrow> Subscription" where
  "unsubscribe s =
     (let s1 = s\<lparr> sub_closed := True \<rparr>;
          s2 = (case sub_reconnectTimer s1 of
                  Some t \<Rightarrow> s1\<lparr> sub_timers := removeAll t (sub_timers s1),
                                sub_trace := sub_trace s1 @ [ClearTimeout t] \<rparr>
                | None \<Rightarrow> s1)
      in case sub_socket s2 of
           None \<Rightarrow> s2
         | Some k \<Rightarrow>
             if sub_sockets s2 ! k = OPEN
             then s2\<lparr> sub_sockets := (sub_sockets s2)[k := CLOSING],
                       sub_trace := sub_trace s2 @ [SocketClose k] \<rparr>
             else s2\<lparr> sub_sockets := (sub_sockets s2)[k := (if sub_sockets s2 ! k = CLOSED then CLOSED else CLOSING)],
                       sub_trace := sub_trace s2 @ [SocketTerminate k] \<rparr>)"

text \<open>
  What can happen to a subscription: a socket emits \<^verbatim>\<open>open\<close>, \<^verbatim>\<open>message\<close>, \<^verbatim>\<open>error\<close> or \<^verbatim>\<open>close\<close>
  (each socket closes once), a pending timer fires, or the caller unsubscribes. An event
  that the runtime cannot deliver in the state (a frame on a socket that is not open, a
  timer that is not pending) leaves the state as it is.
\<close>

datatype stream_event =
    SockOpen nat
  | SockMessage nat raw_data
  | SockError nat js_error
  | SockClose nat
  | TimerFired nat
  | Unsubscribe

definition step ::
  "js_host \<Rightarrow> (jsval \<Rightarrow> js_error option) \<Rightarrow> EventStreamOptions \<Rightarrow> Subscription \<Rightarrow> stream_event \<Rightarrow>
   Subscription" where
  "step h handler options s ev =
     (case ev of
        SockOpen k \<Rightarrow>
          if k < length (sub_sockets s) \<and> sub_sockets s ! k = CONNECTING
          then openListener options (s\<lparr> sub_sockets := (sub_sockets s)[k := OPEN] \<rparr>)
          else s
      | SockMessage k data \<Rightarrow>
          if k < length (sub_sockets s) \<and> sub_sockets s ! k = OPEN
          then (case messageListener h handler options data s of Inr s' \<Rightarrow> s' | Inl e \<Rightarrow> s)
          else s
      | SockError k error \<Rightarrow>
          if k < length (sub_sockets s) \<and> sub_sockets s ! k \<noteq> CLOSED
          then errorListener options error s
          else s
      | SockClose k \<Rightarrow>
          if k < length (sub_sockets s) \<and> sub_sockets s ! k \<noteq> CLOSED
          then closeListener options (s\<lparr> sub_sockets := (sub_sockets s)[k := CLOSED] \<rparr>)
          else s
      | TimerFired t \<Rightarrow>
          if t \<in> set (sub_timers s)
          then connect options (s\<lparr> sub_timers := removeAll t (sub_timers s) \<rparr>)
          else s
      | Unsubscribe \<Rightarrow> unsubscribe s)"

text \<open>The subscription after a sequence of events, and the number of connection attempts made.\<close>

definition run ::
  "js_host \<Rightarrow> (jsval \<Rightarrow> js_error option) \<Rightarrow> EventStreamOptions \<Rightarrow> Subscription \<Rightarrow> stream_event list \<Rightarrow>
   Subscription" where
  "run h handler options s evs = foldl (step h handler options) s evs"

fun isAttempt :: "effect \<Rightarrow> bool" where
  "isAttempt (NewWebSocket k) = True"
| "isAttempt e = False"



section \<open>A host for the closed examples\<close>

text \<open>
  The examples below are closed terms, so they fix the built-ins: \<^verbatim>\<open>String\<close> as the decimal
  digits of an integer (what it is for integers below \<open>10\<^sup>2\<^sup>1\<close> in magnitude; the examples
  render no other number), \<^verbatim>\<open>trim\<close> and \<^verbatim>\<open>toLowerCase\<close> as they are on ASCII text, and
  \<^verbatim>\<open>JSON.parse\<close> by its value on the texts the examples use (any other text is taken not
  to parse; the one such text used, \<^verbatim>\<open>oops\<close>, is not JSON). The theorems hold for every host.
\<close>

fun digitsOf :: "nat \<Rightarrow> string" where
  "digitsOf n =
     (if n < 10 then [''0123456789'' ! n]
      else digitsOf (n div 10) @ [''0123456789'' ! (n mod 10)])"

declare digitsOf.simps [simp del]

definition asciiSpace :: "char \<Rightarrow> bool" where
  "asciiSpace ch = (of_char ch \<in> {9, 10, 11, 12, 13, 32 :: nat})"

definition asciiTrim :: "string \<Rightarrow> string" where
  "asciiTrim s = rev (dropWhile asciiSpace (rev (dropWhile asciiSpace s)))"

definition asciiLower :: "char \<Rightarrow> char" where
  "asciiLower ch =
     (case map_of (zip ''ABCDEFGHIJKLMNOPQRSTUVWXYZ'' ''abcdefghijklmnopqrstuvwxyz'') ch of
        Some l \<Rightarrow> l
      | None \<Rightarrow> ch)"

definition exampleHost :: js_host where
  \<open>exampleHost =
     \<lparr> numberToString = (\<lambda>r. (if r < 0 then ''-'' else []) @ digitsOf (nat \<lfloor>\<bar>r\<bar>\<rfloor>)),
       trim = asciiTrim,
       toLowerCase = map asciiLower,
       jsonParse = map_of
         [(''{}'', JObj []),
          (''[]'', JArr []),
          (''null'', JNull),
          (''{"foo":1}'', JObj [(''foo'', JNum (Finite 1))]),
          (''{"type":"node:deleted","nodeId":"n5"}'',
             JObj [(''type'', JStr ''node:deleted''), (''nodeId'', JStr ''n5'')]),
          (''{"success":false,"data":null,"error":"boom"}'',
             JObj [(''success'', JBool False), (''data'', JNull), (''error'', JStr ''boom'')])] \<rparr>\<close>

definition exampleClient :: ForestClient where
  "exampleClient = \<lparr> timeoutMs = 5000, contentCache = Map.empty, detailCache = Map.empty \<rparr>"

definition exampleResponse :: "string \<Rightarrow> fetch_outcome" where
  "exampleResponse body =
     Responded \<lparr> resp_ok = True, resp_status = 200, resp_statusText = ''OK'', resp_text = body \<rparr>"

text \<open>Stream options with every callback supplied and the default retry delay.\<close>

definition exampleOptions :: EventStreamOptions where
  "exampleOptions =
     \<lparr> retryDelayMs = None, has_onOpen = True, has_onClose = True, has_onError = True,
       has_onStatusChange = True, onOpen_throws = False, onClose_throws = False,
       onStatusChange_throws = (\<lambda>status. False) \<rparr>"


text \<open>A subscription whose first socket has opened, with a handler that returns normally.\<close>

definition exampleOpenSubscription :: Subscription where
  "exampleOpenSubscription =
     run exampleHost (\<lambda>event. None) exampleOptions (subscribeToEvents exampleOptions) [SockOpen 0]"


text \<open>The edge \<^verbatim>\<open>{sourceId:"n1", targetId:"n2"}\<close> and its record when fetched under \<^verbatim>\<open>n1\<close>.\<close>

definition exampleEdge :: jsval where
  "exampleEdge = JObj [(''sourceId'', JStr ''n1''), (''targetId'', JStr ''n2'')]"

definition exampleEdgeRecord :: ForestEdgeRecord where
  "exampleEdgeRecord =
     \<lparr> edge_id = None, edge_sourceId = Some ''n1'', edge_targetId = Some ''n2'',
       edge_direction = Some DirOut, edge_score = None, edge_status = None,
       edge_label = None, edge_description = None, edge_toTitle = None,
       edge_fromTitle = None \<rparr>"

text \<open>
  Node-detail payloads of the examples: \<^verbatim>\<open>{edges:{accepted:[{},{}], suggested:[{}]}}\<close>, the same with
  \<^verbatim>\<open>edgesTotal:10\<close>, \<^verbatim>\<open>{suggestions:[{}]}\<close>, and
  \<^verbatim>\<open>{edges:{items:[{}], suggested:[{}]}, suggestions:[]}\<close>.
\<close>

definition nestedPayload :: jsval where
  "nestedPayload =
     JObj [(''edges'', JObj [(''accepted'', JArr [JObj [], JObj []]), (''suggested'', JArr [JObj []])])]"

definition nestedPayloadWithTotal :: jsval where
  "nestedPayloadWithTotal =
     JObj [(''edges'', JObj [(''accepted'', JArr [JObj [], JObj []]), (''suggested'', JArr [JObj []])]),
           (''edgesTotal'', JNum (Finite 10))]"

definition topLevelPayload :: jsval where
  "topLevelPayload = JObj [(''suggestions'', JArr [JObj []])]"

definition emptyTopLevelPayload :: jsval where
  "emptyTopLevelPayload =
     JObj [(''edges'', JObj [(''items'', JArr [JObj []]), (''suggested'', JArr [JObj []])]),
           (''suggestions'', JArr [])]"

section \<open>Properties of edge normalization\<close>

lemma resolveDirection_cases:
  "nodeId \<noteq> [] \<Longrightarrow>
   resolveDirection src tgt nodeId =
     (if src = Some nodeId \<and> tgt = Some nodeId then Some Bidirectional
      else if src = Some nodeId then Some DirOut
      else if tgt = Some nodeId then Some DirIn
      else None)"
  by (auto simp: resolveDirection_def)

lemma normalizeEdgeRecord_direction:
  "normalizeEdgeRecord h edge nodeId = Some r \<Longrightarrow>
   edge_direction r = resolveDirection (edge_sourceId r) (edge_targetId r) nodeId"
  by (auto simp: normalizeEdgeRecord_def Let_def split: if_splits)

text \<open>
  Claim C3. For every value that normalizes to an edge record and every non-empty queried
  node id, with the record's resolved \<^verbatim>\<open>sourceId\<close> and \<^verbatim>\<open>targetId\<close> (each possibly undefined):
  the direction is \<^verbatim>\<open>bidirectional\<close> exactly when both equal the queried id, \<^verbatim>\<open>out\<close> exactly
  when the source equals it and the target does not, \<^verbatim>\<open>in\<close> exactly when the target equals
  it and the source does not, and undefined exactly when neither equals it.
\<close>

theorem edge_direction_iff:
  assumes "nodeId \<noteq> []" and "normalizeEdgeRecord h edge nodeId = Some r"
  shows "(edge_direction r = Some Bidirectional \<longleftrightarrow>
            edge_sourceId r = Some nodeId \<and> edge_targetId r = Some nodeId)
       \<and> (edge_direction r = Some DirOut \<longleftrightarrow>
            edge_sourceId r = Some nodeId \<and> edge_targetId r \<noteq> Some nodeId)
       \<and> (edge_direction r = Some DirIn \<longleftrightarrow>
            edge_targetId r = Some nodeId \<and> edge_sourceId r \<noteq> Some nodeId)
       \<and> (edge_direction r = None \<longleftrightarrow>
            edge_sourceId r \<noteq> Some nodeId \<and> edge_targetId r \<noteq> Some nodeId)"
proof -
  have d: "edge_direction r =
     (if edge_sourceId r = Some nodeId \<and> edge_targetId r = Some nodeId then Some Bidirectional
      else if edge_sourceId r = Some nodeId then Some DirOut
      else if edge_targetId r = Some nodeId then Some DirIn
      else None)"
    using normalizeEdgeRecord_direction [OF assms(2)] resolveDirection_cases [OF assms(1)]
    by simp
  show ?thesis by (simp add: d)
qed

text \<open>
  The example edge fetched under \<^verbatim>\<open>n1\<close>: the hypotheses hold, the source is the queried id and
  the target is not, and the direction is \<^verbatim>\<open>out\<close>.
\<close>

theorem edge_direction_iff_witness:
  "''n1'' \<noteq> []
   \<and> normalizeEdgeRecord exampleHost exampleEdge ''n1'' = Some exampleEdgeRecord
   \<and> edge_sourceId exampleEdgeRecord = Some ''n1''
   \<and> edge_targetId exampleEdgeRecord \<noteq> Some ''n1''
   \<and> edge_direction exampleEdgeRecord = Some DirOut"
proof -
  have a: "''n1'' \<noteq> []" by simp
  have b: "normalizeEdgeRecord exampleHost exampleEdge ''n1'' = Some exampleEdgeRecord"
    by (simp add: normalizeEdgeRecord_def exampleEdge_def exampleEdgeRecord_def coerceString_def
          coerceNumber_def coalesce_def resolveDirection_def extractTitle_def Let_def)
  have c: "edge_sourceId exampleEdgeRecord = Some ''n1''" "edge_targetId exampleEdgeRecord \<noteq> Some ''n1''"
    by (simp_all add: exampleEdgeRecord_def)
  show ?thesis
    using a b c edge_direction_iff [OF a b] by blast
qed

section \<open>Properties of the caches\<close>

text \<open>
  Claim C7. For both caches, every id and every value: a read after the entry is stored returns
  the value, whether the entry is put into the map directly or by a fetch that returns it
  (\<^verbatim>\<open>getNodeContent\<close>, \<^verbatim>\<open>getNodeDetail\<close>); a read after an eviction, or after the cache is cleared,
  returns absent (\<^verbatim>\<open>undefined\<close>). Reads and evictions are total functions with no error
  result: the source has no \<^verbatim>\<open>throw\<close> on these paths.
\<close>

theorem cache_laws:
  "getCachedNodeContent (c\<lparr> contentCache := (contentCache c)(i \<mapsto> v) \<rparr>) i = v
   \<and> getCachedNodeContent (evictNodeContent c i) i = JUndefined
   \<and> getCachedNodeContent (clearNodeContentCache c) i = JUndefined
   \<and> getCachedNodeDetail (c\<lparr> detailCache := (detailCache c)(i \<mapsto> d) \<rparr>) i = Some d
   \<and> getCachedNodeDetail (evictNodeDetail c i) i = None
   \<and> getCachedNodeDetail (clearNodeDetailCache c) i = None
   \<and> (getNodeContent h c i force outcome = (Inr v, c') \<longrightarrow> getCachedNodeContent c' i = v)
   \<and> (getNodeDetail h c i force outcome = (Inr d, c'') \<longrightarrow> getCachedNodeDetail c'' i = Some d)"
proof -
  have content: "getCachedNodeContent c' i = v" if "getNodeContent h c i force outcome = (Inr v, c')"
    using that
    by (auto simp: getNodeContent_def getCachedNodeContent_def split: if_splits sum.splits)
  have detail: "getCachedNodeDetail c'' i = Some d" if "getNodeDetail h c i force outcome = (Inr d, c'')"
    using that
    by (auto simp: getNodeDetail_def getCachedNodeDetail_def Let_def
             split: if_splits sum.splits option.splits)
  show ?thesis
    using content detail
    by (simp add: getCachedNodeContent_def evictNodeContent_def clearNodeContentCache_def
          getCachedNodeDetail_def evictNodeDetail_def clearNodeDetailCache_def)
qed

text \<open>
  A content fetch and a detail fetch of \<^verbatim>\<open>n1\<close> on an empty client, each answered with \<^verbatim>\<open>{}\<close>:
  both succeed, and the value each returns is what the cache then holds.
\<close>

theorem cache_laws_witness:
  "getNodeContent exampleHost exampleClient ''n1'' False (exampleResponse ''{}'') =
     (Inr (JObj []), exampleClient\<lparr> contentCache := (contentCache exampleClient)(''n1'' \<mapsto> JObj []) \<rparr>)
   \<and> getCachedNodeContent
        (exampleClient\<lparr> contentCache := (contentCache exampleClient)(''n1'' \<mapsto> JObj []) \<rparr>) ''n1'' =
      JObj []
   \<and> getNodeDetail exampleHost exampleClient ''n1'' False (exampleResponse ''{}'') =
     (Inr (normalizeNodeDetail exampleHost (JObj []) ''n1''),
      exampleClient\<lparr> detailCache := (detailCache exampleClient)
        (''n1'' \<mapsto> normalizeNodeDetail exampleHost (JObj []) ''n1'') \<rparr>)
   \<and> getCachedNodeDetail
        (exampleClient\<lparr> detailCache := (detailCache exampleClient)
          (''n1'' \<mapsto> normalizeNodeDetail exampleHost (JObj []) ''n1'') \<rparr>) ''n1'' =
      Some (normalizeNodeDetail exampleHost (JObj []) ''n1'')"
proof -
  have r: "request exampleHost 5000 (exampleResponse ''{}'') = Inr (JObj [])"
    by (simp add: request_def exampleResponse_def exampleHost_def unwrap_def)
  have a: "getNodeContent exampleHost exampleClient ''n1'' False (exampleResponse ''{}'') =
     (Inr (JObj []), exampleClient\<lparr> contentCache := (contentCache exampleClient)(''n1'' \<mapsto> JObj []) \<rparr>)"
    by (simp add: getNodeContent_def getCachedNodeContent_def exampleClient_def r)
  have b: "getNodeDetail exampleHost exampleClient ''n1'' False (exampleResponse ''{}'') =
     (Inr (normalizeNodeDetail exampleHost (JObj []) ''n1''),
      exampleClient\<lparr> detailCache := (detailCache exampleClient)
        (''n1'' \<mapsto> normalizeNodeDetail exampleHost (JObj []) ''n1'') \<rparr>)"
    by (simp add: getNodeDetail_def getCachedNodeDetail_def exampleClient_def r Let_def)
  show ?thesis
    using a b
      cache_laws [where h = exampleHost and c = exampleClient and i = "''n1''" and force = False
        and outcome = "exampleResponse ''{}''" and v = "JObj []"
        and c' = "exampleClient\<lparr> contentCache := (contentCache exampleClient)(''n1'' \<mapsto> JObj []) \<rparr>"
        and d = "normalizeNodeDetail exampleHost (JObj []) ''n1''"
        and c'' = "exampleClient\<lparr> detailCache := (detailCache exampleClient)
          (''n1'' \<mapsto> normalizeNodeDetail exampleHost (JObj []) ''n1'') \<rparr>"]
    by blast
qed

section \<open>Properties of stats normalization\<close>

lemma extractSection_object:
  "truthy s \<Longrightarrow> typeofObject s \<Longrightarrow>
   extractSection s =
     \<lparr> section_total = coerceNumber
         (coalesce (getProp s ''total'') (coalesce (getProp s ''count'') (getProp s ''length''))),
       section_accepted = coerceNumber (getProp s ''accepted''),
       section_suggested = coerceNumber (coalesce (getProp s ''suggested'') (getProp s ''pending'')) \<rparr>"
  by (simp add: extractSection_def Let_def)

lemma coerceNumber_Finite: "coerceNumber (JNum (Finite r)) = Some r"
  by (simp add: coerceNumber_def)

lemma coerceNumber_nullish: "nullish v \<Longrightarrow> coerceNumber v = None"
  by (cases v) (simp_all add: coerceNumber_def)

lemma coerceNumber_object: "typeofObject v \<Longrightarrow> coerceNumber v = None"
  by (cases v) (simp_all add: coerceNumber_def)

lemma coalesce_simps:
  "nullish a \<Longrightarrow> coalesce a b = b"
  "\<not> nullish a \<Longrightarrow> coalesce a b = a"
  by (simp_all add: coalesce_def)

lemma truthy_not_nullish: "truthy v \<Longrightarrow> \<not> nullish v"
  by (cases v) simp_all

lemma toRecord_nullish: "nullish v \<Longrightarrow> toRecord v = None"
  by (cases v) (simp_all add: toRecord_def)

text \<open>
  Claim C1. For every object of the shape
  \<^verbatim>\<open>{nodes:{total:T,...}, edges:{accepted:A, suggested:S, total:A+S}, tags:{total:Tg}}\<close> with no
  \<^verbatim>\<open>counts\<close> wrapper, no \<^verbatim>\<open>suggestions\<close> key and no flat \<^verbatim>\<open>suggestedEdges\<close> field,
  \<^verbatim>\<open>normalizeStats\<close> returns \<^verbatim>\<open>nodes\<close> = T, \<^verbatim>\<open>edges\<close> = A+S and \<^verbatim>\<open>tags\<close> = Tg as the claim says, but
  \<^verbatim>\<open>suggestedEdges\<close> = A+S, where the claim says S: with no \<^verbatim>\<open>suggestions\<close> key the suggestions
  section falls back to the edges section, whose \<^verbatim>\<open>total\<close> is read before \<^verbatim>\<open>edges.suggested\<close>.
\<close>

theorem normalizeStats_nested_shape:
  assumes src: "source = JObj kvs"
    and nodes: "getProp source ''nodes'' = ns" "truthy ns" "typeofObject ns"
               "getProp ns ''total'' = JNum (Finite T)"
    and edges: "getProp source ''edges'' = es" "truthy es" "typeofObject es"
               "getProp es ''accepted'' = JNum (Finite A)"
               "getProp es ''suggested'' = JNum (Finite S)"
               "getProp es ''total'' = JNum (Finite (A + S))"
    and tags: "getProp source ''tags'' = ts" "truthy ts" "typeofObject ts"
              "getProp ts ''total'' = JNum (Finite Tg)"
    and none: "nullish (getProp source ''counts'')" "nullish (getProp source ''suggestions'')"
              "nullish (getProp source ''suggestedEdges'')"
  shows "stats_nodes (normalizeStats h source) = Some T
       \<and> stats_edges (normalizeStats h source) = Some (A + S)
       \<and> stats_tags (normalizeStats h source) = Some Tg
       \<and> stats_suggestedEdges (normalizeStats h source) = Some (A + S)"
proof -
  have rec: "toRecord source = Some source"
    by (simp add: src toRecord_def)
  have counts: "toRecord (getProp source ''counts'') = None"
    using none(1) by (rule toRecord_nullish)
  have nn: "\<not> nullish ns" "\<not> nullish es" "\<not> nullish ts"
    using nodes(2) edges(2) tags(2) by (simp_all add: truthy_not_nullish)
  have sn: "section_total (extractSection ns) = Some T"
    by (simp add: extractSection_object nodes coalesce_def coerceNumber_Finite)
  have se: "section_total (extractSection es) = Some (A + S)"
    by (simp add: extractSection_object edges coalesce_def coerceNumber_Finite)
  have st: "section_total (extractSection ts) = Some Tg"
    by (simp add: extractSection_object tags coalesce_def coerceNumber_Finite)
  have cn: "coerceNumber ns = None" "coerceNumber es = None" "coerceNumber ts = None"
    using nodes(3) edges(3) tags(3) by (simp_all add: coerceNumber_object)
  show ?thesis
    using none(2,3)
    by (simp add: normalizeStats_def Let_def rec counts nodes(1) edges(1) tags(1) nn
          coalesce_simps sn se st cn coerceNumber_nullish)
qed

text \<open>
  The payload \<^verbatim>\<open>{nodes:{total:524}, edges:{accepted:1200, suggested:42, total:1242}, tags:{total:87}}\<close>:
  \<^verbatim>\<open>suggestedEdges\<close> is 1242, not 42.
\<close>

theorem normalizeStats_nested_shape_witness:
  "stats_nodes (normalizeStats exampleHost
     (JObj [(''nodes'', JObj [(''total'', JNum (Finite 524))]),
            (''edges'', JObj [(''accepted'', JNum (Finite 1200)), (''suggested'', JNum (Finite 42)),
                              (''total'', JNum (Finite (1200 + 42)))]),
            (''tags'', JObj [(''total'', JNum (Finite 87))])])) = Some 524
   \<and> stats_edges (normalizeStats exampleHost
     (JObj [(''nodes'', JObj [(''total'', JNum (Finite 524))]),
            (''edges'', JObj [(''accepted'', JNum (Finite 1200)), (''suggested'', JNum (Finite 42)),
                              (''total'', JNum (Finite (1200 + 42)))]),
            (''tags'', JObj [(''total'', JNum (Finite 87))])])) = Some (1200 + 42)
   \<and> stats_tags (normalizeStats exampleHost
     (JObj [(''nodes'', JObj [(''total'', JNum (Finite 524))]),
            (''edges'', JObj [(''accepted'', JNum (Finite 1200)), (''suggested'', JNum (Finite 42)),
                              (''total'', JNum (Finite (1200 + 42)))]),
            (''tags'', JObj [(''total'', JNum (Finite 87))])])) = Some 87
   \<and> stats_suggestedEdges (normalizeStats exampleHost
     (JObj [(''nodes'', JObj [(''total'', JNum (Finite 524))]),
            (''edges'', JObj [(''accepted'', JNum (Finite 1200)), (''suggested'', JNum (Finite 42)),
                              (''total'', JNum (Finite (1200 + 42)))]),
            (''tags'', JObj [(''total'', JNum (Finite 87))])])) = Some (1200 + 42)"
  by (rule normalizeStats_nested_shape
        [where ns = "JObj [(''total'', JNum (Finite 524))]"
           and es = "JObj [(''accepted'', JNum (Finite 1200)), (''suggested'', JNum (Finite 42)),
                           (''total'', JNum (Finite (1200 + 42)))]"
           and ts = "JObj [(''total'', JNum (Finite 87))]"]) simp_all

text \<open>
  Claim C10 (as amended). For every section object whose \<^verbatim>\<open>total\<close> is absent or \<^verbatim>\<open>null\<close>, a finite
  \<^verbatim>\<open>count\<close> is the section's total, and when \<^verbatim>\<open>count\<close> is absent or \<^verbatim>\<open>null\<close> too a finite \<^verbatim>\<open>length\<close>
  is; when \<^verbatim>\<open>suggested\<close> is absent or \<^verbatim>\<open>null\<close>, a finite \<^verbatim>\<open>pending\<close> is the section's suggested
  count. Consequently \<^verbatim>\<open>normalizeStats\<close> on an object whose \<^verbatim>\<open>nodes\<close> is such a section with
  \<^verbatim>\<open>count\<close> c, and which has no \<^verbatim>\<open>counts\<close> wrapper, returns \<^verbatim>\<open>nodes\<close> = c.
\<close>

theorem extractSection_aliases:
  assumes "truthy s" and "typeofObject s"
  shows "(nullish (getProp s ''total'') \<and> getProp s ''count'' = JNum (Finite c) \<longrightarrow>
            section_total (extractSection s) = Some c)
       \<and> (nullish (getProp s ''total'') \<and> nullish (getProp s ''count'') \<and>
            getProp s ''length'' = JNum (Finite l) \<longrightarrow>
            section_total (extractSection s) = Some l)
       \<and> (nullish (getProp s ''suggested'') \<and> getProp s ''pending'' = JNum (Finite p) \<longrightarrow>
            section_suggested (extractSection s) = Some p)
       \<and> (nullish (getProp s ''total'') \<and> getProp s ''count'' = JNum (Finite c) \<and>
            getProp payload ''nodes'' = s \<and> truthy payload \<and> typeofObject payload \<and>
            nullish (getProp payload ''counts'') \<longrightarrow>
            stats_nodes (normalizeStats h payload) = Some c)"
proof -
  have nn: "\<not> nullish s" using assms(1) by (simp add: truthy_not_nullish)
  have cn: "coerceNumber s = None" using assms(2) by (simp add: coerceNumber_object)
  have sec: "section_total (extractSection s) = Some c"
    if "nullish (getProp s ''total'')" "getProp s ''count'' = JNum (Finite c)"
    using that by (simp add: extractSection_object [OF assms] coalesce_def coerceNumber_Finite)
  have stats: "stats_nodes (normalizeStats h payload) = Some c"
    if t: "nullish (getProp s ''total'')" "getProp s ''count'' = JNum (Finite c)"
      and p: "getProp payload ''nodes'' = s" "truthy payload" "typeofObject payload"
      and k: "nullish (getProp payload ''counts'')"
  proof -
    have rec: "toRecord payload = Some payload" using p(2,3) by (simp add: toRecord_def)
    have counts: "toRecord (getProp payload ''counts'') = None"
      using k by (rule toRecord_nullish)
    show ?thesis
      by (simp add: normalizeStats_def Let_def rec counts p(1) nn coalesce_simps cn
            coerceNumber_nullish sec [OF t])
  qed
  show ?thesis
    using sec stats
    by (auto simp: extractSection_object [OF assms] coalesce_def coerceNumber_Finite)
qed

text \<open>
  The sections \<^verbatim>\<open>{count:5}\<close>, the array \<^verbatim>\<open>[null, null, null]\<close> (its \<^verbatim>\<open>length\<close> is 3) and \<^verbatim>\<open>{pending:4}\<close>,
  and the payload \<^verbatim>\<open>{nodes:{count:5}}\<close>.
\<close>

theorem extractSection_aliases_witness:
  "section_total (extractSection (JObj [(''count'', JNum (Finite 5))])) = Some 5
   \<and> section_total (extractSection (JArr [JNull, JNull, JNull])) = Some 3
   \<and> section_suggested (extractSection (JObj [(''pending'', JNum (Finite 4))])) = Some 4
   \<and> stats_nodes (normalizeStats exampleHost
        (JObj [(''nodes'', JObj [(''count'', JNum (Finite 5))])])) = Some 5"
  using
    extractSection_aliases [where s = "JObj [(''count'', JNum (Finite 5))]" and c = 5
      and payload = "JObj [(''nodes'', JObj [(''count'', JNum (Finite 5))])]" and h = exampleHost]
    extractSection_aliases [where s = "JArr [JNull, JNull, JNull]" and l = 3]
    extractSection_aliases [where s = "JObj [(''pending'', JNum (Finite 4))]" and p = 4]
  by simp

text \<open>
  The section \<^verbatim>\<open>{total:"12", count:5}\<close> has no finite-number \<^verbatim>\<open>total\<close> and a finite-number \<^verbatim>\<open>count\<close>,
  and its extracted total is undefined: \<^verbatim>\<open>count\<close> is read only when \<^verbatim>\<open>total\<close> is absent or \<^verbatim>\<open>null\<close>.
\<close>

theorem extractSection_aliases_counterexample:
  "coerceNumber (getProp (JObj [(''total'', JStr ''12''), (''count'', JNum (Finite 5))]) ''total'') = None
   \<and> coerceNumber (getProp (JObj [(''total'', JStr ''12''), (''count'', JNum (Finite 5))]) ''count'') = Some 5
   \<and> section_total (extractSection (JObj [(''total'', JStr ''12''), (''count'', JNum (Finite 5))])) = None"
  by (simp add: extractSection_def coalesce_def coerceNumber_def Let_def)

section \<open>Properties of envelope unwrapping\<close>

text \<open>
  Claim C2 (as amended). For every payload that is an object with a \<^verbatim>\<open>data\<close> key and whose
  \<^verbatim>\<open>success\<close> field is \<^verbatim>\<open>false\<close>, unwrapping fails with an error whose message is the envelope's
  \<^verbatim>\<open>error\<close> field if that is a string, else its \<^verbatim>\<open>message\<close> field if that is truthy, else the generic
  fallback. A payload without a \<^verbatim>\<open>data\<close> key is returned as it is, whatever its \<^verbatim>\<open>success\<close> field.
  The function does not see the HTTP status.
\<close>

theorem unwrap_envelope:
  "(truthy p \<and> typeofObject p \<and> hasProp ''data'' p \<and> getProp p ''success'' = JBool False \<longrightarrow>
      unwrap p = Inl (Error
        (if isString (getProp p ''error'') then getProp p ''error''
         else if truthy (getProp p ''message'') then getProp p ''message''
         else JStr ''Forest API responded with an error.'')))
   \<and> (\<not> hasProp ''data'' p \<longrightarrow> unwrap p = Inr p)"
  by (simp add: unwrap_def)

text \<open>
  The envelopes \<^verbatim>\<open>{success:false, data:null, error:"boom"}\<close>,
  \<^verbatim>\<open>{success:false, data:null, error:{}, message:"no such node"}\<close> and \<^verbatim>\<open>{success:false, data:null}\<close>
  fail with the three messages; the raw payload \<^verbatim>\<open>{id:"n1"}\<close> is returned as it is.
\<close>

theorem unwrap_envelope_witness:
  "unwrap (JObj [(''success'', JBool False), (''data'', JNull), (''error'', JStr ''boom'')]) =
     Inl (Error (JStr ''boom''))
   \<and> unwrap (JObj [(''success'', JBool False), (''data'', JNull), (''error'', JObj []),
                    (''message'', JStr ''no such node'')]) =
     Inl (Error (JStr ''no such node''))
   \<and> unwrap (JObj [(''success'', JBool False), (''data'', JNull)]) =
     Inl (Error (JStr ''Forest API responded with an error.''))
   \<and> unwrap (JObj [(''id'', JStr ''n1'')]) = Inr (JObj [(''id'', JStr ''n1'')])"
  using
    unwrap_envelope [of "JObj [(''success'', JBool False), (''data'', JNull), (''error'', JStr ''boom'')]"]
    unwrap_envelope [of "JObj [(''success'', JBool False), (''data'', JNull), (''error'', JObj []),
                               (''message'', JStr ''no such node'')]"]
    unwrap_envelope [of "JObj [(''success'', JBool False), (''data'', JNull)]"]
    unwrap_envelope [of "JObj [(''id'', JStr ''n1'')]"]
  by simp

text \<open>
  The payload \<^verbatim>\<open>{success:false, error:"boom"}\<close> has \<^verbatim>\<open>success === false\<close> and no \<^verbatim>\<open>data\<close> key:
  unwrapping returns it and does not fail.
\<close>

theorem unwrap_envelope_counterexample:
  "getProp (JObj [(''success'', JBool False), (''error'', JStr ''boom'')]) ''success'' = JBool False
   \<and> unwrap (JObj [(''success'', JBool False), (''error'', JStr ''boom'')]) =
       Inr (JObj [(''success'', JBool False), (''error'', JStr ''boom'')])"
  by (simp add: unwrap_def)

section \<open>Properties of node-detail normalization\<close>

lemma getProp_coalesce_empty: "getProp (coalesce p (JObj [])) k = getProp p k"
  by (cases p) (simp_all add: coalesce_def)

text \<open>
  Claim C9 (as amended). For every node-detail payload and every request id: the normalized
  detail's id is the payload's \<^verbatim>\<open>id\<close> when that is a non-empty string, and its rendering as a
  string when it is a finite number (and the rendering is not empty); it is the id used in the
  request when the payload's \<^verbatim>\<open>id\<close> is the empty string, or is neither a string nor a finite
  number (absent, \<^verbatim>\<open>null\<close>, a boolean, an object).
\<close>

theorem normalizeNodeDetail_id:
  "(getProp payload ''id'' = JStr s \<and> s \<noteq> [] \<longrightarrow>
      detail_id (normalizeNodeDetail h payload nodeId) = s)
   \<and> (getProp payload ''id'' = JNum (Finite r) \<and> numberToString h r \<noteq> [] \<longrightarrow>
      detail_id (normalizeNodeDetail h payload nodeId) = numberToString h r)
   \<and> (getProp payload ''id'' = JStr [] \<or> coerceString h (getProp payload ''id'') = None \<longrightarrow>
      detail_id (normalizeNodeDetail h payload nodeId) = nodeId)"
  by (auto simp: normalizeNodeDetail_def Let_def getProp_coalesce_empty coerceString_def
           split: prod.splits option.splits)

text \<open>
  Fetched under \<^verbatim>\<open>n1\<close>: the payload \<^verbatim>\<open>{id:"n7"}\<close> gives \<^verbatim>\<open>n7\<close>, \<^verbatim>\<open>{id:7}\<close> gives \<^verbatim>\<open>7\<close>, and \<^verbatim>\<open>{}\<close> gives \<^verbatim>\<open>n1\<close>.
\<close>

theorem normalizeNodeDetail_id_witness:
  "detail_id (normalizeNodeDetail exampleHost (JObj [(''id'', JStr ''n7'')]) ''n1'') = ''n7''
   \<and> detail_id (normalizeNodeDetail exampleHost (JObj [(''id'', JNum (Finite 7))]) ''n1'') = ''7''
   \<and> detail_id (normalizeNodeDetail exampleHost (JObj []) ''n1'') = ''n1''"
proof -
  have seven: "numberToString exampleHost 7 = ''7''"
    by (simp add: exampleHost_def digitsOf.simps)
  show ?thesis
    using
      normalizeNodeDetail_id [of "JObj [(''id'', JStr ''n7'')]" "''n7''" exampleHost "''n1''"]
      normalizeNodeDetail_id [of "JObj [(''id'', JNum (Finite 7))]" _ exampleHost "''n1''" 7]
      normalizeNodeDetail_id [of "JObj []" _ exampleHost "''n1''"]
    by (simp add: seven coerceString_def)
qed

text \<open>
  The payload \<^verbatim>\<open>{id:""}\<close> carries an id, the empty string, and the detail fetched under \<^verbatim>\<open>n1\<close> has
  the id \<^verbatim>\<open>n1\<close>: \<^verbatim>\<open>coerceString(source.id) || nodeId\<close> takes the request's id for every falsy string.
\<close>

theorem normalizeNodeDetail_id_counterexample:
  "getProp (JObj [(''id'', JStr [])]) ''id'' = JStr []
   \<and> detail_id (normalizeNodeDetail exampleHost (JObj [(''id'', JStr [])]) ''n1'') = ''n1''"
  by (simp add: normalizeNodeDetail_def Let_def getProp_coalesce_empty coerceString_def
        split: prod.splits)

section \<open>Shape errors of the request methods\<close>

text \<open>
  Claim C6 (as amended). A content or detail fetch with an empty node id fails with
  \<^verbatim>\<open>Node id is required\<close>. When the request itself succeeds with the unwrapped payload \<open>p\<close>: the health
  and stats requests and the content and detail fetches of a non-empty id never reject \<open>p\<close>
  (normalization defaults); the nodes list fails with \<^verbatim>\<open>Unexpected response shape from /nodes endpoint\<close>
  exactly when \<open>p\<close> is neither an array nor a truthy value with an array under \<^verbatim>\<open>items\<close> or \<^verbatim>\<open>nodes\<close>,
  and succeeds otherwise; the tags list fails with \<^verbatim>\<open>Unexpected response shape from /tags endpoint\<close>
  exactly when \<open>p\<close> is neither an array nor a truthy value with an array under \<^verbatim>\<open>items\<close> or \<^verbatim>\<open>tags\<close>, and
  succeeds otherwise.
\<close>

theorem shape_errors:
  assumes "request h (timeoutMs c) outcome = Inr p"
  shows "fst (getNodeContent h c [] force outcome) = Inl (Error (JStr ''Node id is required''))
       \<and> fst (getNodeDetail h c [] force outcome) = Inl (Error (JStr ''Node id is required''))
       \<and> (ident \<noteq> [] \<longrightarrow> (\<exists>v. fst (getNodeContent h c ident force outcome) = Inr v))
       \<and> (ident \<noteq> [] \<longrightarrow> (\<exists>d. fst (getNodeDetail h c ident force outcome) = Inr d))
       \<and> getHealth h c outcome = Inr (normalizeHealth h p)
       \<and> getStats h c outcome = Inr (normalizeStats h p)
       \<and> (listNodes h c outcome = Inl (Error (JStr ''Unexpected response shape from /nodes endpoint''))
            \<longleftrightarrow> \<not> (isArray p \<or> truthy p \<and> (isArray (getProp p ''items'') \<or> isArray (getProp p ''nodes''))))
       \<and> (isArray p \<or> truthy p \<and> (isArray (getProp p ''items'') \<or> isArray (getProp p ''nodes''))
            \<longrightarrow> (\<exists>r. listNodes h c outcome = Inr r))
       \<and> (listTags h c outcome = Inl (Error (JStr ''Unexpected response shape from /tags endpoint''))
            \<longleftrightarrow> \<not> (isArray p \<or> truthy p \<and> (isArray (getProp p ''items'') \<or> isArray (getProp p ''tags''))))
       \<and> (isArray p \<or> truthy p \<and> (isArray (getProp p ''items'') \<or> isArray (getProp p ''tags''))
            \<longrightarrow> (\<exists>ts. listTags h c outcome = Inr ts))"
proof -
  have content0: "fst (getNodeContent h c [] force outcome) = Inl (Error (JStr ''Node id is required''))"
    by (simp add: getNodeContent_def)
  have detail0: "fst (getNodeDetail h c [] force outcome) = Inl (Error (JStr ''Node id is required''))"
    by (simp add: getNodeDetail_def)
  have content: "\<exists>v. fst (getNodeContent h c ident force outcome) = Inr v" if "ident \<noteq> []"
    using that by (simp add: getNodeContent_def assms)
  have detail: "\<exists>d. fst (getNodeDetail h c ident force outcome) = Inr d" if "ident \<noteq> []"
    using that by (simp add: getNodeDetail_def assms Let_def split: option.splits)
  have health: "getHealth h c outcome = Inr (normalizeHealth h p)"
    by (simp add: getHealth_def assms)
  have stats: "getStats h c outcome = Inr (normalizeStats h p)"
    by (simp add: getStats_def assms)
  have nodes: "listNodes h c outcome = Inl (Error (JStr ''Unexpected response shape from /nodes endpoint''))
     \<longleftrightarrow> \<not> (isArray p \<or> truthy p \<and> (isArray (getProp p ''items'') \<or> isArray (getProp p ''nodes'')))"
    by (auto simp: listNodes_def assms)
  have nodes_ok: "\<exists>r. listNodes h c outcome = Inr r"
    if "isArray p \<or> truthy p \<and> (isArray (getProp p ''items'') \<or> isArray (getProp p ''nodes''))"
    using that by (auto simp: listNodes_def assms)
  have tags: "listTags h c outcome = Inl (Error (JStr ''Unexpected response shape from /tags endpoint''))
     \<longleftrightarrow> \<not> (isArray p \<or> truthy p \<and> (isArray (getProp p ''items'') \<or> isArray (getProp p ''tags'')))"
    by (auto simp: listTags_def assms)
  have tags_ok: "\<exists>ts. listTags h c outcome = Inr ts"
    if "isArray p \<or> truthy p \<and> (isArray (getProp p ''items'') \<or> isArray (getProp p ''tags''))"
    using that by (auto simp: listTags_def assms)
  show ?thesis
    using content0 detail0 content detail health stats nodes nodes_ok tags tags_ok
    by blast
qed

text \<open>
  A response with the body \<^verbatim>\<open>[]\<close>: the request succeeds with the empty array, which both list
  methods accept, and a detail fetch of \<^verbatim>\<open>n1\<close> answered with it succeeds too.
\<close>

theorem shape_errors_witness:
  "request exampleHost (timeoutMs exampleClient) (exampleResponse ''[]'') = Inr (JArr [])
   \<and> ''n1'' \<noteq> []
   \<and> (\<exists>d. fst (getNodeDetail exampleHost exampleClient ''n1'' False (exampleResponse ''[]'')) = Inr d)
   \<and> isArray (JArr [])
   \<and> (\<exists>r. listNodes exampleHost exampleClient (exampleResponse ''[]'') = Inr r)
   \<and> (\<exists>ts. listTags exampleHost exampleClient (exampleResponse ''[]'') = Inr ts)"
proof -
  have r: "request exampleHost (timeoutMs exampleClient) (exampleResponse ''[]'') = Inr (JArr [])"
    by (simp add: request_def exampleResponse_def exampleHost_def unwrap_def)
  show ?thesis
    using r shape_errors [OF r, of False "''n1''"]
    by simp
qed

text \<open>
  A response with the body \<^verbatim>\<open>{}\<close>: the request succeeds with the empty object, and both list
  methods reject it with their shape error.
\<close>

theorem shape_errors_counterexample:
  "request exampleHost (timeoutMs exampleClient) (exampleResponse ''{}'') = Inr (JObj [])
   \<and> listNodes exampleHost exampleClient (exampleResponse ''{}'') =
       Inl (Error (JStr ''Unexpected response shape from /nodes endpoint''))
   \<and> listTags exampleHost exampleClient (exampleResponse ''{}'') =
       Inl (Error (JStr ''Unexpected response shape from /tags endpoint''))"
proof -
  have r: "request exampleHost (timeoutMs exampleClient) (exampleResponse ''{}'') = Inr (JObj [])"
    by (simp add: request_def exampleResponse_def exampleHost_def unwrap_def)
  show ?thesis
    by (simp add: r listNodes_def listTags_def)
qed

section \<open>Properties of the node-detail fallbacks\<close>

lemma normalizeEdgeRecord_object:
  "truthy e \<Longrightarrow> typeofObject e \<Longrightarrow> \<exists>r. normalizeEdgeRecord h e n = Some r"
  by (simp add: normalizeEdgeRecord_def Let_def)

lemma length_normalizeEdges:
  "\<forall>e \<in> set xs. truthy e \<and> typeofObject e \<Longrightarrow> length (normalizeEdges h xs n) = length xs"
proof (induction xs)
  case Nil
  then show ?case by (simp add: normalizeEdges_def map_filter_simps)
next
  case (Cons e xs)
  then obtain r where "normalizeEdgeRecord h e n = Some r"
    using normalizeEdgeRecord_object [of e h n] by auto
  with Cons show ?case by (simp add: normalizeEdges_def map_filter_simps)
qed

lemma normalizeEdgeCollection_array:
  "coll_items (normalizeEdgeCollection h (JArr xs) n) = normalizeEdges h xs n"
  "coll_total (normalizeEdgeCollection h (JArr xs) n) = Some (numberOfLength (normalizeEdges h xs n))"
  by (simp_all add: normalizeEdgeCollection_def Let_def)

lemma normalizeEdgeCollection_plain_object:
  "\<not> isArray v \<Longrightarrow> \<not> isArray (getProp v ''items'') \<Longrightarrow> \<not> isArray (getProp v ''edges'') \<Longrightarrow>
   normalizeEdgeCollection h v n = \<lparr> coll_items = [], coll_total = None \<rparr>"
  by (simp add: normalizeEdgeCollection_def Let_def)

lemma nestedFallback_coalesce:
  "nestedFallback h (coalesce p (JObj [])) i vars = nestedFallback h p i vars"
  unfolding nestedFallback_def getProp_coalesce_empty by (rule refl)

lemma legacyFallback_coalesce:
  "legacyFallback h (coalesce p (JObj [])) i vars = legacyFallback h p i vars"
  unfolding legacyFallback_def getProp_coalesce_empty by (rule refl)

text \<open>The detail with the resolved id named once.\<close>

lemma normalizeNodeDetail_unfold:
  assumes "i = (case coerceString h (getProp p ''id'') of
                  Some s \<Rightarrow> if s \<noteq> [] then s else nodeId | None \<Rightarrow> nodeId)"
  shows "normalizeNodeDetail h p nodeId =
     (case legacyFallback h p i
            (nestedFallback h p i
              (coll_items (normalizeEdgeCollection h (getProp p ''edges'') i),
               coerceNumber
                 (coalesce (getProp p ''edgesTotal'')
                   (coalesce (getProp (getProp p ''edges'') ''total'')
                     (ofNumber (coll_total (normalizeEdgeCollection h (getProp p ''edges'') i))))),
               coll_items (normalizeEdgeCollection h
                 (coalesce (getProp p ''suggestions'') (getProp (getProp p ''edges'') ''suggested'')) i),
               coerceNumber
                 (coalesce (getProp p ''suggestionsTotal'')
                   (coalesce (getProp p ''suggestedEdgesTotal'')
                     (ofNumber (coll_total (normalizeEdgeCollection h
                        (coalesce (getProp p ''suggestions'')
                           (getProp (getProp p ''edges'') ''suggested'')) i))))))) of
        (edges, edgesTotal, suggestions, suggestionsTotal) \<Rightarrow>
          \<lparr> detail_id = i,
            detail_title = coerceString h (getProp p ''title''),
            detail_body = coerceString h (getProp p ''body''),
            detail_tags = (if isArray (getProp p ''tags'')
                           then stringsOf (elements (getProp p ''tags'')) else []),
            detail_bodyLength = coerceNumber
              (coalesce (getProp p ''bodyLength'') (getProp p ''body_size'')),
            detail_edges = edges,
            detail_edgesTotal = (case edgesTotal of Some n \<Rightarrow> n | None \<Rightarrow> numberOfLength edges),
            detail_suggestions = suggestions,
            detail_suggestionsTotal =
              (case suggestionsTotal of Some n \<Rightarrow> n | None \<Rightarrow> numberOfLength suggestions) \<rparr>)"
  unfolding normalizeNodeDetail_def Let_def getProp_coalesce_empty nestedFallback_coalesce
    legacyFallback_coalesce assms
  by (rule refl)

lemma normalizeNodeDetail_id_unfold:
  "detail_id (normalizeNodeDetail h p nodeId) =
     (case coerceString h (getProp p ''id'') of
        Some s \<Rightarrow> if s \<noteq> [] then s else nodeId | None \<Rightarrow> nodeId)"
  by (simp add: normalizeNodeDetail_unfold [OF refl] split: prod.splits)
lemma nestedFallback_tuple:
  "nestedFallback h p i (edges, edgesTotal, suggestions, suggestionsTotal) =
     (if edges = [] \<and> truthy (getProp p ''edges'') \<and> typeofObject (getProp p ''edges'') then
        (coll_items (normalizeEdgeCollection h (getProp (getProp p ''edges'') ''accepted'') i),
         orElse edgesTotal
           (coll_total (normalizeEdgeCollection h (getProp (getProp p ''edges'') ''accepted'') i)),
         (if suggestions = []
          then coll_items (normalizeEdgeCollection h (getProp (getProp p ''edges'') ''suggested'') i)
          else suggestions),
         (if suggestions = []
          then orElse suggestionsTotal
                 (coll_total (normalizeEdgeCollection h (getProp (getProp p ''edges'') ''suggested'') i))
          else suggestionsTotal))
      else (edges, edgesTotal, suggestions, suggestionsTotal))"
  by (simp add: nestedFallback_def Let_def)

lemma legacyFallback_tuple:
  "legacyFallback h p i (edges, edgesTotal, suggestions, suggestionsTotal) =
     (if suggestions = [] \<and> coll_items (normalizeEdgeCollection h (getProp p ''suggestedEdges'') i) \<noteq> []
      then (edges, edgesTotal,
            coll_items (normalizeEdgeCollection h (getProp p ''suggestedEdges'') i),
            orElse suggestionsTotal
              (coll_total (normalizeEdgeCollection h (getProp p ''suggestedEdges'') i)))
      else (edges, edgesTotal, suggestions, suggestionsTotal))"
  by (simp add: legacyFallback_def Let_def)

lemma detail_suggestions_eq:
  assumes i: "i = detail_id (normalizeNodeDetail h p nodeId)"
    and direct: "direct = coll_items (normalizeEdgeCollection h
                  (coalesce (getProp p ''suggestions'') (getProp (getProp p ''edges'') ''suggested'')) i)"
    and nested: "nested = coll_items (normalizeEdgeCollection h (getProp (getProp p ''edges'') ''suggested'') i)"
    and legacy: "legacy = coll_items (normalizeEdgeCollection h (getProp p ''suggestedEdges'') i)"
  shows "detail_suggestions (normalizeNodeDetail h p nodeId) =
     (if direct \<noteq> [] then direct
      else if coll_items (normalizeEdgeCollection h (getProp p ''edges'') i) = [] \<and>
              truthy (getProp p ''edges'') \<and> typeofObject (getProp p ''edges'') \<and> nested \<noteq> []
           then nested
           else legacy)"
proof -
  have i': "i = (case coerceString h (getProp p ''id'') of
                  Some s \<Rightarrow> if s \<noteq> [] then s else nodeId | None \<Rightarrow> nodeId)"
    by (simp add: i normalizeNodeDetail_id_unfold)
  show ?thesis
    by (simp add: normalizeNodeDetail_unfold [OF i'] nestedFallback_tuple legacyFallback_tuple
          direct nested legacy)
qed

lemma detail_scenario:
  assumes es: "getProp p ''edges'' = es" "truthy es" "typeofObject es" "\<not> isArray es"
    and acc: "getProp es ''accepted'' = JArr as" "\<forall>e \<in> set as. truthy e \<and> typeofObject e"
    and sug: "getProp es ''suggested'' = JArr ss" "\<forall>e \<in> set ss. truthy e \<and> typeofObject e"
             "ss \<noteq> []"
    and plain: "\<not> isArray (getProp es ''items'')" "\<not> isArray (getProp es ''edges'')"
               "nullish (getProp es ''total'')"
    and none: "nullish (getProp p ''suggestions'')" "nullish (getProp p ''edgesTotal'')"
              "nullish (getProp p ''suggestionsTotal'')" "nullish (getProp p ''suggestedEdgesTotal'')"
  shows "length (detail_edges (normalizeNodeDetail h p nodeId)) = length as
       \<and> length (detail_suggestions (normalizeNodeDetail h p nodeId)) = length ss
       \<and> detail_edgesTotal (normalizeNodeDetail h p nodeId) = of_nat (length as)
       \<and> detail_suggestionsTotal (normalizeNodeDetail h p nodeId) = of_nat (length ss)"
proof -
  define i where "i = (case coerceString h (getProp p ''id'') of
                  Some s \<Rightarrow> if s \<noteq> [] then s else nodeId | None \<Rightarrow> nodeId)"
  have e0: "normalizeEdgeCollection h es i = \<lparr> coll_items = [], coll_total = None \<rparr>"
    using es(4) plain(1,2) by (simp add: normalizeEdgeCollection_plain_object)
  have la: "length (normalizeEdges h as i) = length as"
    using acc(2) by (rule length_normalizeEdges)
  have ls: "length (normalizeEdges h ss i) = length ss"
    using sug(2) by (rule length_normalizeEdges)
  have ne: "normalizeEdges h ss i \<noteq> []"
    using ls sug(3) by auto
  have et0: "coerceNumber (coalesce (getProp p ''edgesTotal'') (coalesce (getProp es ''total'') JUndefined)) = None"
    using none(2) plain(3) by (simp add: coalesce_simps coerceNumber_def)
  have st0: "coerceNumber (coalesce (getProp p ''suggestionsTotal'')
               (coalesce (getProp p ''suggestedEdgesTotal'') (JNum (Finite x)))) = Some x" for x
    using none(3,4) by (simp add: coalesce_simps coerceNumber_Finite)
  have top: "coalesce (getProp p ''suggestions'') (JArr ss) = JArr ss"
    using none(1) by (simp add: coalesce_simps)
  show ?thesis
    using es(2,3) ne
    by (simp add: normalizeNodeDetail_unfold [OF i_def] es(1) acc(1) sug(1) e0 et0 top
          normalizeEdgeCollection_array st0 nestedFallback_tuple legacyFallback_tuple la ls
          numberOfLength_def)
qed
text \<open>
  Claim C4 (as amended). For every node-detail payload whose \<^verbatim>\<open>edges\<close> is an object that is not
  itself a list wrapper (no \<^verbatim>\<open>items\<close> or \<^verbatim>\<open>edges\<close> array, no \<^verbatim>\<open>total\<close>) and holds an \<^verbatim>\<open>accepted\<close> array of
  edge objects and a non-empty \<^verbatim>\<open>suggested\<close> array of edge objects, with no top-level \<^verbatim>\<open>suggestions\<close>
  and no explicit \<^verbatim>\<open>edgesTotal\<close>, \<^verbatim>\<open>suggestionsTotal\<close> or \<^verbatim>\<open>suggestedEdgesTotal\<close>: the detail's edges are
  as many as the accepted array's (2 for 2), its suggestions as many as the suggested array's
  (1 for 1), and the two totals are these lengths. The suggestions come from the top-level
  \<^verbatim>\<open>suggestions\<close> when that is not \<^verbatim>\<open>null\<close> or \<^verbatim>\<open>undefined\<close> and gives a non-empty list; from the nested
  \<^verbatim>\<open>edges.suggested\<close>, then the legacy \<^verbatim>\<open>suggestedEdges\<close>, when there is no top-level \<^verbatim>\<open>suggestions\<close>; and
  when the top-level \<^verbatim>\<open>suggestions\<close> is present and gives no item, from the nested \<^verbatim>\<open>edges.suggested\<close>
  only if no edge was extracted from \<^verbatim>\<open>edges\<close> itself and \<^verbatim>\<open>edges\<close> is an object, else from the legacy
  field.
\<close>

theorem normalizeNodeDetail_fallbacks:
  "(getProp p ''edges'' = es \<and> truthy es \<and> typeofObject es \<and> \<not> isArray es \<and>
    getProp es ''accepted'' = JArr as \<and> (\<forall>e \<in> set as. truthy e \<and> typeofObject e) \<and>
    getProp es ''suggested'' = JArr ss \<and> (\<forall>e \<in> set ss. truthy e \<and> typeofObject e) \<and> ss \<noteq> [] \<and>
    \<not> isArray (getProp es ''items'') \<and> \<not> isArray (getProp es ''edges'') \<and>
    nullish (getProp es ''total'') \<and> nullish (getProp p ''suggestions'') \<and>
    nullish (getProp p ''edgesTotal'') \<and> nullish (getProp p ''suggestionsTotal'') \<and>
    nullish (getProp p ''suggestedEdgesTotal'') \<longrightarrow>
      length (detail_edges (normalizeNodeDetail h p nodeId)) = length as
    \<and> length (detail_suggestions (normalizeNodeDetail h p nodeId)) = length ss
    \<and> detail_edgesTotal (normalizeNodeDetail h p nodeId) = of_nat (length as)
    \<and> detail_suggestionsTotal (normalizeNodeDetail h p nodeId) = of_nat (length ss))
   \<and> (i = detail_id (normalizeNodeDetail h p nodeId) \<and>
       direct = coll_items (normalizeEdgeCollection h (getProp p ''suggestions'') i) \<and>
       nested = coll_items (normalizeEdgeCollection h (getProp (getProp p ''edges'') ''suggested'') i) \<and>
       legacy = coll_items (normalizeEdgeCollection h (getProp p ''suggestedEdges'') i) \<longrightarrow>
         (nullish (getProp p ''suggestions'') \<longrightarrow>
            detail_suggestions (normalizeNodeDetail h p nodeId) =
              (if nested \<noteq> [] then nested else legacy))
       \<and> (\<not> nullish (getProp p ''suggestions'') \<and> direct \<noteq> [] \<longrightarrow>
            detail_suggestions (normalizeNodeDetail h p nodeId) = direct)
       \<and> (\<not> nullish (getProp p ''suggestions'') \<and> direct = [] \<longrightarrow>
            detail_suggestions (normalizeNodeDetail h p nodeId) =
              (if coll_items (normalizeEdgeCollection h (getProp p ''edges'') i) = [] \<and>
                  truthy (getProp p ''edges'') \<and> typeofObject (getProp p ''edges'') \<and> nested \<noteq> []
               then nested else legacy)))"
proof -
  have order:
    "(nullish (getProp p ''suggestions'') \<longrightarrow>
        detail_suggestions (normalizeNodeDetail h p nodeId) =
          (if nested \<noteq> [] then nested else legacy))
     \<and> (\<not> nullish (getProp p ''suggestions'') \<and> direct \<noteq> [] \<longrightarrow>
        detail_suggestions (normalizeNodeDetail h p nodeId) = direct)
     \<and> (\<not> nullish (getProp p ''suggestions'') \<and> direct = [] \<longrightarrow>
        detail_suggestions (normalizeNodeDetail h p nodeId) =
          (if coll_items (normalizeEdgeCollection h (getProp p ''edges'') i) = [] \<and>
              truthy (getProp p ''edges'') \<and> typeofObject (getProp p ''edges'') \<and> nested \<noteq> []
           then nested else legacy))"
    if i: "i = detail_id (normalizeNodeDetail h p nodeId)"
      and d: "direct = coll_items (normalizeEdgeCollection h (getProp p ''suggestions'') i)"
      and n: "nested = coll_items (normalizeEdgeCollection h (getProp (getProp p ''edges'') ''suggested'') i)"
      and l: "legacy = coll_items (normalizeEdgeCollection h (getProp p ''suggestedEdges'') i)"
  proof (cases "nullish (getProp p ''suggestions'')")
    case True
    then show ?thesis
      by (simp add: detail_suggestions_eq [OF i refl n l] coalesce_simps n [symmetric])
  next
    case False
    then show ?thesis
      by (simp add: detail_suggestions_eq [OF i refl n l] coalesce_simps d [symmetric])
  qed
  show ?thesis
    using detail_scenario [of p es as ss h nodeId] order
    by blast
qed

text \<open>
  The payload \<^verbatim>\<open>{edges:{accepted:[{},{}], suggested:[{}]}}\<close> fetched under \<^verbatim>\<open>n1\<close> meets the hypotheses
  and gives 2 edges and 1 suggestion with totals 2 and 1, the suggestion being the nested one;
  the payload \<^verbatim>\<open>{suggestions:[{}]}\<close> gives its top-level suggestion.
\<close>

theorem normalizeNodeDetail_fallbacks_witness:
  "length (detail_edges (normalizeNodeDetail exampleHost nestedPayload ''n1'')) = length [JObj [], JObj []]
   \<and> length (detail_suggestions (normalizeNodeDetail exampleHost nestedPayload ''n1'')) = length [JObj []]
   \<and> detail_edgesTotal (normalizeNodeDetail exampleHost nestedPayload ''n1'') = of_nat (length [JObj [], JObj []])
   \<and> detail_suggestionsTotal (normalizeNodeDetail exampleHost nestedPayload ''n1'') = of_nat (length [JObj []])
   \<and> detail_suggestions (normalizeNodeDetail exampleHost nestedPayload ''n1'') =
       normalizeEdges exampleHost [JObj []] ''n1''
   \<and> detail_suggestions (normalizeNodeDetail exampleHost topLevelPayload ''n1'') =
       normalizeEdges exampleHost [JObj []] ''n1''
   \<and> detail_suggestions (normalizeNodeDetail exampleHost emptyTopLevelPayload ''n1'') = []"
proof -
  have id1: "detail_id (normalizeNodeDetail exampleHost nestedPayload ''n1'') = ''n1''"
    and id2: "detail_id (normalizeNodeDetail exampleHost topLevelPayload ''n1'') = ''n1''"
    and id3: "detail_id (normalizeNodeDetail exampleHost emptyTopLevelPayload ''n1'') = ''n1''"
    by (simp_all add: normalizeNodeDetail_id_unfold nestedPayload_def topLevelPayload_def
          emptyTopLevelPayload_def coerceString_def)
  have one: "length (normalizeEdges exampleHost [JObj []] ''n1'') = 1"
    using length_normalizeEdges [of "[JObj []]" exampleHost "''n1''"] by simp
  have ne: "normalizeEdges exampleHost [JObj []] ''n1'' \<noteq> []"
    using one by auto
  have g1: "getProp nestedPayload ''edges'' =
              JObj [(''accepted'', JArr [JObj [], JObj []]), (''suggested'', JArr [JObj []])]"
    "getProp nestedPayload ''suggestions'' = JUndefined"
    "getProp nestedPayload ''edgesTotal'' = JUndefined"
    "getProp nestedPayload ''suggestionsTotal'' = JUndefined"
    "getProp nestedPayload ''suggestedEdgesTotal'' = JUndefined"
    "getProp nestedPayload ''suggestedEdges'' = JUndefined"
    by (simp_all add: nestedPayload_def)
  have g2: "getProp topLevelPayload ''suggestions'' = JArr [JObj []]"
    "getProp topLevelPayload ''edges'' = JUndefined"
    "getProp topLevelPayload ''suggestedEdges'' = JUndefined"
    by (simp_all add: topLevelPayload_def)
  have g3: "getProp emptyTopLevelPayload ''suggestions'' = JArr []"
    "getProp emptyTopLevelPayload ''edges'' = JObj [(''items'', JArr [JObj []]), (''suggested'', JArr [JObj []])]"
    "getProp emptyTopLevelPayload ''suggestedEdges'' = JUndefined"
    by (simp_all add: emptyTopLevelPayload_def)
  have c: "coll_items (normalizeEdgeCollection exampleHost (JArr xs) ''n1'') = normalizeEdges exampleHost xs ''n1''"
    "coll_items (normalizeEdgeCollection exampleHost JUndefined ''n1'') = []"
    "coll_items (normalizeEdgeCollection exampleHost
       (JObj [(''items'', JArr [JObj []]), (''suggested'', JArr [JObj []])]) ''n1'') =
     normalizeEdges exampleHost [JObj []] ''n1''" for xs
    by (simp_all add: normalizeEdgeCollection_def Let_def)
  have e: "normalizeEdges exampleHost [] ''n1'' = []"
    by (simp add: normalizeEdges_def map_filter_simps)
  show ?thesis
    using ne one
      normalizeNodeDetail_fallbacks
        [where p = nestedPayload and h = exampleHost and nodeId = "''n1''"
           and es = "JObj [(''accepted'', JArr [JObj [], JObj []]), (''suggested'', JArr [JObj []])]"
           and as = "[JObj [], JObj []]" and ss = "[JObj []]"
           and i = "''n1''" and direct = "[]"
           and nested = "normalizeEdges exampleHost [JObj []] ''n1''" and legacy = "[]"]
      normalizeNodeDetail_fallbacks
        [where p = topLevelPayload and h = exampleHost and nodeId = "''n1''"
           and i = "''n1''" and direct = "normalizeEdges exampleHost [JObj []] ''n1''"
           and nested = "[]" and legacy = "[]"]
      normalizeNodeDetail_fallbacks
        [where p = emptyTopLevelPayload and h = exampleHost and nodeId = "''n1''"
           and i = "''n1''" and direct = "[]"
           and nested = "normalizeEdges exampleHost [JObj []] ''n1''" and legacy = "[]"]
    by (simp add: id1 id2 id3 g1 g2 g3 c e)
qed

text \<open>
  Two payloads against the claim as stated. \<^verbatim>\<open>{edges:{accepted:[{},{}], suggested:[{}]}, edgesTotal:10}\<close>
  has the claim's shape and its \<^verbatim>\<open>edgesTotal\<close> is 10, not 2. In
  \<^verbatim>\<open>{edges:{items:[{}], suggested:[{}]}, suggestions:[]}\<close> the top-level list is empty and the nested
  \<^verbatim>\<open>edges.suggested\<close> section holds one edge, and the detail has no suggestion.
\<close>

theorem normalizeNodeDetail_fallbacks_counterexample:
  "detail_edgesTotal (normalizeNodeDetail exampleHost nestedPayloadWithTotal ''n1'') = 10
   \<and> length (coll_items (normalizeEdgeCollection exampleHost
        (getProp emptyTopLevelPayload ''suggestions'') ''n1'')) = 0
   \<and> length (coll_items (normalizeEdgeCollection exampleHost
        (getProp (getProp emptyTopLevelPayload ''edges'') ''suggested'') ''n1'')) = 1
   \<and> detail_suggestions (normalizeNodeDetail exampleHost emptyTopLevelPayload ''n1'') = []"
proof -
  have one: "length (normalizeEdges exampleHost [JObj []] ''n1'') = 1"
    using length_normalizeEdges [of "[JObj []]" exampleHost "''n1''"] by simp
  have ne: "normalizeEdges exampleHost [JObj []] ''n1'' \<noteq> []"
    using one by auto
  have a: "detail_edgesTotal (normalizeNodeDetail exampleHost nestedPayloadWithTotal ''n1'') = 10"
    using ne
    by (simp add: normalizeNodeDetail_unfold [OF refl] nestedPayloadWithTotal_def
          nestedFallback_tuple legacyFallback_tuple normalizeEdgeCollection_def Let_def
          coalesce_def coerceNumber_def split: prod.splits)
  have b: "detail_suggestions (normalizeNodeDetail exampleHost emptyTopLevelPayload ''n1'') = []"
    using ne
    by (simp add: normalizeNodeDetail_unfold [OF refl] emptyTopLevelPayload_def
          nestedFallback_tuple legacyFallback_tuple normalizeEdgeCollection_def Let_def
          coalesce_def normalizeEdges_def split: prod.splits)
  show ?thesis
    using a b one
    by (simp add: emptyTopLevelPayload_def normalizeEdgeCollection_def Let_def
          normalizeEdges_def)
qed

section \<open>Properties of the event stream\<close>

lemma emit_fields:
  "sub_closed (emit b e s) = sub_closed s"
  "sub_socket (emit b e s) = sub_socket s"
  "sub_reconnectTimer (emit b e s) = sub_reconnectTimer s"
  "sub_sockets (emit b e s) = sub_sockets s"
  "sub_timers (emit b e s) = sub_timers s"
  "sub_nextTimer (emit b e s) = sub_nextTimer s"
  "sub_trace (emit b e s) = sub_trace s @ (if b then [e] else [])"
  by (simp_all add: emit_def)




text \<open>The message listener returns normally, whatever the frame, and only adds to the trace.\<close>

lemma messageListener_returns:
  "\<exists>tr. messageListener h handler options data s = Inr (s\<lparr> sub_trace := sub_trace s @ tr \<rparr>)
        \<and> filter isAttempt tr = []"
proof (cases "jsonParse h (decodeMessage data)")
  case None
  then show ?thesis
    by (cases "has_onError options")
       (auto simp: messageListener_def messageBody_def emit_def
             intro: exI [of _ "[]"] exI [of _ "[OnError SyntaxError]"])
next
  case (Some parsed)
  show ?thesis
  proof (cases "unwrap parsed")
    case (Inl e)
    with Some show ?thesis
      by (cases "has_onError options")
         (auto simp: messageListener_def messageBody_def emit_def
               intro: exI [of _ "[]"] exI [of _ "[OnError e]"])
  next
    case (Inr event)
    show ?thesis
    proof (cases "truthy event \<and> typeofObject event \<and> isString (getProp event ''type'')")
      case False
      with Some Inr show ?thesis
        by (auto simp: messageListener_def messageBody_def intro: exI [of _ "[]"])
    next
      case True
      show ?thesis
      proof (cases "handler event")
        case None
        with Some Inr True show ?thesis
          by (auto simp: messageListener_def messageBody_def intro: exI [of _ "[Handler event]"])
      next
        case (Some e)
        with \<open>jsonParse h (decodeMessage data) = Some parsed\<close> Inr True show ?thesis
          by (cases "has_onError options")
             (auto simp: messageListener_def messageBody_def emit_def
                   intro: exI [of _ "[Handler event]"] exI [of _ "[Handler event, OnError e]"])
      qed
    qed
  qed
qed

lemma call_eq: "call supplied throws e s = (supplied \<and> throws, emit supplied e s)"
  by (simp add: call_def emit_def)



























text \<open>A close listener whose \<^verbatim>\<open>onClose\<close> throws sets no timer: the exception ends it first.\<close>

lemma closeListener_throws:
  "has_onClose options \<Longrightarrow> onClose_throws options \<Longrightarrow>
   sub_timers (closeListener options s) = sub_timers s"
  by (simp add: closeListener_def call_eq emit_fields)



text \<open>
  Claim C5 (as amended). A frame whose text fails JSON parsing, or parses to an envelope that
  declares \<^verbatim>\<open>success === false\<close>, is not delivered to the subscriber's handler and is reported
  through the error callback when one is supplied. A frame that parses and unwraps to a
  value that is not an object with a string \<^verbatim>\<open>type\<close> is not delivered either, and nothing is
  reported: the subscription is left exactly as it was. For every frame the message listener
  returns normally, and in none of these cases does it touch the sockets, the timers or the
  closed flag.
\<close>

theorem messageListener_malformed:
  "(jsonParse h (decodeMessage data) = None \<longrightarrow>
      messageListener h handler options data s =
        Inr (s\<lparr> sub_trace := sub_trace s @ (if has_onError options then [OnError SyntaxError] else []) \<rparr>))
   \<and> (jsonParse h (decodeMessage data) = Some parsed \<and> unwrap parsed = Inl e \<longrightarrow>
      messageListener h handler options data s =
        Inr (s\<lparr> sub_trace := sub_trace s @ (if has_onError options then [OnError e] else []) \<rparr>))
   \<and> (jsonParse h (decodeMessage data) = Some parsed \<and> unwrap parsed = Inr event \<and>
       \<not> (truthy event \<and> typeofObject event \<and> isString (getProp event ''type'')) \<longrightarrow>
      messageListener h handler options data s = Inr s)
   \<and> (\<exists>s'. messageListener h handler options data s = Inr s')"
proof -
  have returns: "\<exists>s'. messageListener h handler options data s = Inr s'"
    using messageListener_returns [of h handler options data s] by blast
  show ?thesis
    using returns
    by (auto simp: messageListener_def messageBody_def emit_def)
qed

text \<open>
  On the open subscription of the examples, with an error callback supplied: the frame \<^verbatim>\<open>oops\<close>
  does not parse and is reported as a syntax error; the frame
  \<^verbatim>\<open>{"success":false,"data":null,"error":"boom"}\<close> is reported with the envelope's error; the frame
  \<^verbatim>\<open>{}\<close> leaves the subscription as it was.
\<close>

theorem messageListener_malformed_witness:
  \<open>messageListener exampleHost (\<lambda>event. None) exampleOptions (Text ''oops'') exampleOpenSubscription =
     Inr (exampleOpenSubscription
            \<lparr> sub_trace := sub_trace exampleOpenSubscription @ [OnError SyntaxError] \<rparr>)
   \<and> messageListener exampleHost (\<lambda>event. None) exampleOptions
        (Text ''{"success":false,"data":null,"error":"boom"}'') exampleOpenSubscription =
     Inr (exampleOpenSubscription
            \<lparr> sub_trace := sub_trace exampleOpenSubscription @ [OnError (Error (JStr ''boom''))] \<rparr>)
   \<and> messageListener exampleHost (\<lambda>event. None) exampleOptions (Buffer ''{}'') exampleOpenSubscription =
     Inr exampleOpenSubscription\<close>
proof -
  have p1: \<open>jsonParse exampleHost (decodeMessage (Text ''oops'')) = None\<close>
    by (simp add: exampleHost_def)
  have p2: \<open>jsonParse exampleHost (decodeMessage (Text ''{"success":false,"data":null,"error":"boom"}'')) =
              Some (JObj [(''success'', JBool False), (''data'', JNull), (''error'', JStr ''boom'')])\<close>
    by (simp add: exampleHost_def)
  have u2: "unwrap (JObj [(''success'', JBool False), (''data'', JNull), (''error'', JStr ''boom'')]) =
              Inl (Error (JStr ''boom''))"
    by (simp add: unwrap_def)
  have p3: "jsonParse exampleHost (decodeMessage (Buffer ''{}'')) = Some (JObj [])"
    by (simp add: exampleHost_def)
  have u3: "unwrap (JObj []) = Inr (JObj [])"
    by (simp add: unwrap_def)
  have t3: "\<not> (truthy (JObj []) \<and> typeofObject (JObj []) \<and> isString (getProp (JObj []) ''type''))"
    by simp
  have e: "has_onError exampleOptions"
    by (simp add: exampleOptions_def)
  show ?thesis
    using p1 p2 u2 p3 u3 t3 e
      messageListener_malformed [of exampleHost "Text ''oops''" "\<lambda>event. None" exampleOptions
        exampleOpenSubscription]
      messageListener_malformed [of exampleHost _ "\<lambda>event. None" exampleOptions exampleOpenSubscription
        "JObj [(''success'', JBool False), (''data'', JNull), (''error'', JStr ''boom'')]"
        "Error (JStr ''boom'')"]
      messageListener_malformed [of exampleHost "Buffer ''{}''" "\<lambda>event. None" exampleOptions
        exampleOpenSubscription "JObj []" _ "JObj []"]
    by simp
qed

text \<open>
  The frame \<^verbatim>\<open>{"foo":1}\<close> parses and has no \<^verbatim>\<open>type\<close>. With an error callback supplied, the listener
  returns the subscription unchanged: its trace has no report of the drop.
\<close>

theorem messageListener_malformed_counterexample:
  \<open>has_onError exampleOptions
   \<and> jsonParse exampleHost (decodeMessage (Text ''{"foo":1}'')) = Some (JObj [(''foo'', JNum (Finite 1))])
   \<and> getProp (JObj [(''foo'', JNum (Finite 1))]) ''type'' = JUndefined
   \<and> messageListener exampleHost (\<lambda>event. None) exampleOptions (Text ''{"foo":1}'')
        exampleOpenSubscription = Inr exampleOpenSubscription\<close>
  by (simp add: messageListener_def messageBody_def exampleHost_def exampleOptions_def unwrap_def)

end
